theory Spec2Isabelle
  imports Main
begin

section \<open>Data model of train.py\<close>

text \<open>
  The script assembles a torchvision backbone with a new classifier head, trains the
  head and saves a checkpoint. Tensors (\<open>'t\<close>), Python floats (\<open>'n\<close>) and the
  optimizer's running statistics (\<open>'o\<close>) are kept abstract: what PyTorch computes with
  them is a parameter of the model, what train.py does with them is defined here.
\<close>

datatype error =
    InvalidChoice
      \<comment> \<open>argparse: "invalid choice", the parser exits\<close>
  | InvalidHeadDimensions
      \<comment> \<open>nn.Linear: RuntimeError, a tensor with a negative dimension\<close>
  | DeviceUnavailable
      \<comment> \<open>Module.to: the error raised for a cuda device when no CUDA is present\<close>
  | ZeroDivisionError
  | IndexError
  | FileNotFoundError
  | KeyError
  | StateDictMismatch
      \<comment> \<open>load_state_dict: RuntimeError, missing or unexpected keys\<close>

datatype device = Cuda | Cpu

text \<open>A torch Parameter: its tensor, its \<open>requires_grad\<close> flag and its \<open>.grad\<close>.\<close>

record 't param =
  data :: 't
  requires_grad :: bool
  grad :: "'t option"

datatype 't layer =
    Linear int int "'t param" "'t param"
      \<comment> \<open>in_features, out_features, weight, bias\<close>
  | ReLU
  | LogSoftmax int
      \<comment> \<open>dim\<close>
  | Dropout

text \<open>
  A torchvision model, as far as train.py looks into it: the parameters of everything but
  the \<open>classifier\<close> attribute, the buffers (running statistics of normalisation layers),
  the \<open>classifier\<close> attribute as an ordered dictionary of named layers, the training flag
  set by \<open>train()\<close> and \<open>eval()\<close>, the device, and the \<open>class_to_idx\<close> attribute that
  save_checkpoint attaches.
\<close>

record 't model =
  backbone :: "'t param list"
  buffers :: "'t list"
  classifier :: "(string \<times> 't layer) list"
  training :: bool
  on_device :: device
  class_to_idx :: "(string \<times> nat) list option"

text \<open>
  What train.py takes from its environment: whether CUDA is there, the two pretrained
  models of torchvision, and the values a new nn.Linear draws for its weight and bias
  (the \<open>k\<close>-th layer created, with its sizes).
\<close>

record 't torchenv =
  cuda_available :: bool
  vgg16 :: "'t model"
  densenet121 :: "'t model"
  init :: "nat \<Rightarrow> int \<Rightarrow> int \<Rightarrow> 't \<times> 't"

section \<open>parse_args\<close>

text \<open>
  The command line after argparse has split it: the positional \<open>data_dir\<close> and the
  options that were given. parse_args fills in the defaults and checks \<open>--arch\<close> against
  its \<open>choices\<close>.
\<close>

record 'n raw_args =
  raw_data_dir :: string
  raw_save_dir :: "string option"
  raw_arch :: "string option"
  raw_lrn :: "'n option"
  raw_hidden_units :: "int option"
  raw_epochs :: "int option"
  raw_gpu :: bool

record 'n args =
  arg_data_dir :: string
  arg_save_dir :: string
  arg_arch :: string
  arg_learning_rate :: 'n
  arg_hidden_units :: int
  arg_epochs :: int
  arg_gpu :: bool

definition arch_choices :: "string list" where
  "arch_choices = [''vgg16'', ''densenet121'']"

definition default :: "'a \<Rightarrow> 'a option \<Rightarrow> 'a" where
  "default d v = (case v of None \<Rightarrow> d | Some x \<Rightarrow> x)"

text \<open>\<open>lrn_default\<close> is the float 0.001.\<close>

definition parse_args :: "'n \<Rightarrow> 'n raw_args \<Rightarrow> error + 'n args" where
  "parse_args lrn_default r =
     (let a = default ''vgg16'' (raw_arch r) in
      if a \<notin> set arch_choices then Inl InvalidChoice
      else Inr \<lparr>arg_data_dir = raw_data_dir r,
                arg_save_dir = default ''train_checkpoint.pth'' (raw_save_dir r),
                arg_arch = a,
                arg_learning_rate = default lrn_default (raw_lrn r),
                arg_hidden_units = default 512 (raw_hidden_units r),
                arg_epochs = default 1 (raw_epochs r),
                arg_gpu = raw_gpu r\<rparr>)"

section \<open>load_model\<close>

text \<open>
  \<open>nn.Linear(i, j)\<close>: fresh weight and bias, both requiring gradients; torch refuses a
  negative size.
\<close>

definition nn_Linear :: "'t torchenv \<Rightarrow> nat \<Rightarrow> int \<Rightarrow> int \<Rightarrow> error + 't layer" where
  "nn_Linear E k i j =
     (if i < 0 \<or> j < 0 then Inl InvalidHeadDimensions
      else Inr (Linear i j
                  \<lparr>data = fst (init E k i j), requires_grad = True, grad = None\<rparr>
                  \<lparr>data = snd (init E k i j), requires_grad = True, grad = None\<rparr>))"

text \<open>Lines 44 to 51: the head, an OrderedDict of six named layers.\<close>

definition build_classifier ::
  "'t torchenv \<Rightarrow> int \<Rightarrow> int \<Rightarrow> error + (string \<times> 't layer) list" where
  "build_classifier E num_in_features hidden_units =
     (case nn_Linear E 0 num_in_features hidden_units of
        Inl e \<Rightarrow> Inl e
      | Inr fc1 \<Rightarrow>
     (case nn_Linear E 1 hidden_units hidden_units of
        Inl e \<Rightarrow> Inl e
      | Inr fc2 \<Rightarrow>
     (case nn_Linear E 2 hidden_units 102 of
        Inl e \<Rightarrow> Inl e
      | Inr fc3 \<Rightarrow>
          Inr [(''fc1'', fc1), (''relu1'', ReLU), (''fc2'', fc2), (''relu2'', ReLU),
               (''fc3'', fc3), (''output'', LogSoftmax 1)])))"

fun layer_parameters :: "'t layer \<Rightarrow> 't param list" where
  "layer_parameters (Linear i j w b) = [w, b]"
| "layer_parameters l = []"

definition classifier_parameters :: "'t model \<Rightarrow> 't param list" where
  "classifier_parameters m = concat (map (\<lambda>(n, l). layer_parameters l) (classifier m))"

text \<open>\<open>model.parameters()\<close>: every parameter, those of the classifier attribute last.\<close>

definition parameters :: "'t model \<Rightarrow> 't param list" where
  "parameters m = backbone m @ classifier_parameters m"

fun freeze_layer :: "'t layer \<Rightarrow> 't layer" where
  "freeze_layer (Linear i j w b) =
     Linear i j (w\<lparr>requires_grad := False\<rparr>) (b\<lparr>requires_grad := False\<rparr>)"
| "freeze_layer l = l"

text \<open>Lines 41 and 42: \<open>requires_grad = False\<close> on every parameter of the model.\<close>

definition freeze :: "'t model \<Rightarrow> 't model" where
  "freeze m =
     m\<lparr>backbone := map (\<lambda>p. p\<lparr>requires_grad := False\<rparr>) (backbone m),
       classifier := map (\<lambda>(n, l). (n, freeze_layer l)) (classifier m)\<rparr>"

text \<open>\<open>model.to(device)\<close>: fails for cuda when there is none.\<close>

definition to_device :: "'t torchenv \<Rightarrow> device \<Rightarrow> 't model \<Rightarrow> error + 't model" where
  "to_device E d m =
     (if d = Cuda \<and> \<not> cuda_available E then Inl DeviceUnavailable
      else Inr (m\<lparr>on_device := d\<rparr>))"

definition load_model ::
  "'t torchenv \<Rightarrow> string \<Rightarrow> int \<Rightarrow> bool \<Rightarrow> error + ('t model \<times> device \<times> int)" where
  "load_model E arch hidden_units gpu =
     (let device = (if gpu then Cuda else Cpu);
          (model, num_in_features) =
             (if arch = ''vgg16'' then (vgg16 E, 25088) else (densenet121 E, 1024));
          model = freeze model
      in case build_classifier E num_in_features hidden_units of
           Inl e \<Rightarrow> Inl e
         | Inr head \<Rightarrow>
             (case to_device E device (model\<lparr>classifier := head\<rparr>) of
                Inl e \<Rightarrow> Inl e
              | Inr model \<Rightarrow> Inr (model, device, num_in_features)))"

text \<open>The topology of a head: the layers' names and kinds, without the parameters.\<close>

datatype kind = LinearK int int | ReLUK | LogSoftmaxK int | DropoutK

fun kind_of :: "'t layer \<Rightarrow> kind" where
  "kind_of (Linear i j w b) = LinearK i j"
| "kind_of ReLU = ReLUK"
| "kind_of (LogSoftmax d) = LogSoftmaxK d"
| "kind_of Dropout = DropoutK"

definition topology :: "(string \<times> 't layer) list \<Rightarrow> (string \<times> kind) list" where
  "topology ls = map (\<lambda>(n, l). (n, kind_of l)) ls"

definition head_topology :: "int \<Rightarrow> int \<Rightarrow> (string \<times> kind) list" where
  "head_topology i h =
     [(''fc1'', LinearK i h), (''relu1'', ReLUK), (''fc2'', LinearK h h), (''relu2'', ReLUK),
      (''fc3'', LinearK h 102), (''output'', LogSoftmaxK 1)]"

section \<open>Parameters by reference, the optimizer\<close>

text \<open>
  An optimizer holds references to the parameters it was given. A reference names a
  parameter of the model by its place: the \<open>k\<close>-th backbone parameter, or the \<open>k\<close>-th
  parameter of \<open>model.classifier.parameters()\<close>.
\<close>

datatype pref = Bb nat | Hd nat

fun map_head ::
  "(pref \<Rightarrow> 't param \<Rightarrow> 't param) \<Rightarrow> nat \<Rightarrow> (string \<times> 't layer) list
     \<Rightarrow> (string \<times> 't layer) list" where
  "map_head f k [] = []"
| "map_head f k ((n, Linear i j w b) # ls) =
     (n, Linear i j (f (Hd k) w) (f (Hd (Suc k)) b)) # map_head f (Suc (Suc k)) ls"
| "map_head f k ((n, l) # ls) = (n, l) # map_head f k ls"

text \<open>Apply \<open>f\<close> to every parameter of the model, in place.\<close>

definition map_params :: "(pref \<Rightarrow> 't param \<Rightarrow> 't param) \<Rightarrow> 't model \<Rightarrow> 't model" where
  "map_params f m =
     m\<lparr>backbone := map (\<lambda>(i, p). f (Bb i) p) (enumerate 0 (backbone m)),
       classifier := map_head f 0 (classifier m)\<rparr>"

definition named_parameters :: "'t model \<Rightarrow> (pref \<times> 't param) list" where
  "named_parameters m =
     map (\<lambda>(i, p). (Bb i, p)) (enumerate 0 (backbone m)) @
     map (\<lambda>(k, p). (Hd k, p)) (enumerate 0 (classifier_parameters m))"

text \<open>\<open>model.classifier.parameters()\<close>, as references.\<close>

definition classifier_refs :: "'t model \<Rightarrow> pref list" where
  "classifier_refs m = map Hd [0..<length (classifier_parameters m)]"

record ('n, 'o) optimizer =
  param_refs :: "pref list"
  lr :: 'n
  opt_state :: 'o

text \<open>
  What PyTorch and Python compute, as train.py calls it: the forward pass (it reads the
  parameters, the buffers and the training flag of the model), the value of the \<open>i\<close>-th
  buffer after a forward pass in training mode, the loss, the gradient that \<open>backward\<close> deposits at a
  parameter, Adam's update of a parameter and of its own state, the tensor operations of
  the accuracy, and float arithmetic (\<open>num\<close> turns a Python int into the number).
\<close>

record ('t, 'n, 'o) torch =
  forward :: "'t model \<Rightarrow> 't \<Rightarrow> 't"
  track :: "'t model \<Rightarrow> 't \<Rightarrow> nat \<Rightarrow> 't"
  criterion :: "'t \<Rightarrow> 't \<Rightarrow> 't"
  item :: "'t \<Rightarrow> 'n"
  gradient :: "'t model \<Rightarrow> 't \<Rightarrow> 't \<Rightarrow> pref \<Rightarrow> 't"
  tadd :: "'t \<Rightarrow> 't \<Rightarrow> 't"
  adam_init :: 'o
  adam_update :: "'n \<Rightarrow> 'o \<Rightarrow> pref \<Rightarrow> 't \<Rightarrow> 't \<Rightarrow> 't"
  adam_state :: "'o \<Rightarrow> (pref \<times> 't) list \<Rightarrow> 'o"
  texp :: "'t \<Rightarrow> 't"
  topk1 :: "'t \<Rightarrow> 't"
  tequals :: "'t \<Rightarrow> 't \<Rightarrow> 't"
  mean_item :: "'t \<Rightarrow> 'n"
  fadd :: "'n \<Rightarrow> 'n \<Rightarrow> 'n"
  fdiv :: "'n \<Rightarrow> 'n \<Rightarrow> 'n"
  num :: "int \<Rightarrow> 'n"

text \<open>\<open>optim.Adam(params, lr=lr)\<close>\<close>

definition Adam :: "('t, 'n, 'o) torch \<Rightarrow> pref list \<Rightarrow> 'n \<Rightarrow> ('n, 'o) optimizer" where
  "Adam T params l = \<lparr>param_refs = params, lr = l, opt_state = adam_init T\<rparr>"

text \<open>\<open>optimizer.zero_grad()\<close>: clears the gradient of the optimizer's parameters.\<close>

definition zero_grad :: "('n, 'o) optimizer \<Rightarrow> 't model \<Rightarrow> 't model" where
  "zero_grad opt m =
     map_params (\<lambda>r p. if r \<in> set (param_refs opt) then p\<lparr>grad := None\<rparr> else p) m"

text \<open>
  \<open>loss.backward()\<close>: every parameter that requires a gradient gets one, added to what
  its \<open>.grad\<close> holds. \<open>m0\<close> is the model the forward pass ran on.
\<close>

definition backward :: "('t, 'n, 'o) torch \<Rightarrow> 't model \<Rightarrow> 't \<Rightarrow> 't \<Rightarrow> 't model \<Rightarrow> 't model" where
  "backward T m0 inputs labels m =
     map_params
       (\<lambda>r p. if requires_grad p
               then p\<lparr>grad := Some (case grad p of
                                      None \<Rightarrow> gradient T m0 inputs labels r
                                    | Some g \<Rightarrow> tadd T g (gradient T m0 inputs labels r))\<rparr>
               else p) m"

text \<open>
  \<open>optimizer.step()\<close>: each of the optimizer's parameters that has a gradient is updated;
  the optimizer's state moves on with the gradients it saw.
\<close>

definition opt_step ::
  "('t, 'n, 'o) torch \<Rightarrow> ('n, 'o) optimizer \<Rightarrow> 't model \<Rightarrow> 't model \<times> ('n, 'o) optimizer" where
  "opt_step T opt m =
     (map_params
        (\<lambda>r p. case grad p of
                  None \<Rightarrow> p
                | Some g \<Rightarrow>
                    if r \<in> set (param_refs opt)
                    then p\<lparr>data := adam_update T (lr opt) (opt_state opt) r (data p) g\<rparr>
                    else p) m,
      opt\<lparr>opt_state :=
            adam_state T (opt_state opt)
              (concat (map (\<lambda>(r, p). case grad p of None \<Rightarrow> [] | Some g \<Rightarrow> [(r, g)])
                 (filter (\<lambda>(r, p). r \<in> set (param_refs opt)) (named_parameters m))))\<rparr>)"

section \<open>train_model\<close>

text \<open>
  What the run prints and which forward passes it makes, in order. A forward pass is
  logged with the model's training flag, with whether gradients are tracked, and with its
  inputs. A report carries the numbers before they are formatted.
\<close>

datatype ('t, 'n) event =
    Print string
  | Forward bool bool 't
  | Report int int 'n 'n 'n
      \<comment> \<open>epoch + 1, epochs, train loss, test loss, test accuracy\<close>
  | Elapsed

record ('t, 'n, 'o) session =
  s_model :: "'t model"
  s_optimizer :: "('n, 'o) optimizer"
  steps :: nat
  running_loss :: 'n
  trace :: "('t, 'n) event list"

definition print_every :: nat where
  "print_every = 5"

text \<open>Lines 86 to 93, for one batch of the validation source, gradients off.\<close>

definition validate_batch ::
  "('t, 'n, 'o) torch \<Rightarrow> 't model \<Rightarrow> 't \<times> 't \<Rightarrow> 'n \<times> 'n \<times> ('t, 'n) event list
     \<Rightarrow> 'n \<times> 'n \<times> ('t, 'n) event list" where
  "validate_batch T m = (\<lambda>(inputs, labels) (test_loss, accuracy, tr).
     (let logps = forward T m inputs;
          loss = criterion T logps labels;
          test_loss = fadd T test_loss (item T loss);
          ps = texp T logps;
          top_class = topk1 T ps;
          equals = tequals T top_class labels;
          accuracy = fadd T accuracy (mean_item T equals)
      in (test_loss, accuracy, tr @ [Forward (training m) False inputs])))"

text \<open>
  Lines 80 to 100. The loaders are the lists of batches an iteration over them yields,
  and \<open>len\<close> is their length. Dividing by \<open>len(validateloader)\<close> raises when it is 0;
  the exception leaves the session as it is then: model in evaluation mode, running_loss
  not reset.
\<close>

definition validation ::
  "('t, 'n, 'o) torch \<Rightarrow> nat \<Rightarrow> int \<Rightarrow> ('t \<times> 't) list \<Rightarrow> ('t, 'n, 'o) session
     \<Rightarrow> (error \<times> ('t, 'n, 'o) session) + ('t, 'n, 'o) session" where
  "validation T epoch epochs validateloader st =
     (let m = (s_model st)\<lparr>training := False\<rparr>;
          (test_loss, accuracy, tr) =
             fold (validate_batch T m) validateloader (num T 0, num T 0, trace st);
          st = st\<lparr>s_model := m, trace := tr\<rparr>
      in if length validateloader = 0 then Inl (ZeroDivisionError, st)
         else Inr (st\<lparr>trace := tr @
                         [Report (int epoch + 1) epochs
                            (fdiv T (running_loss st) (num T (int print_every)))
                            (fdiv T test_loss (num T (int (length validateloader))))
                            (fdiv T accuracy (num T (int (length validateloader))))],
                       running_loss := num T 0,
                       s_model := m\<lparr>training := True\<rparr>\<rparr>))"

text \<open>Lines 70 to 77: one training step on a batch of the train source.\<close>

definition train_step ::
  "('t, 'n, 'o) torch \<Rightarrow> 't \<times> 't \<Rightarrow> ('t, 'n, 'o) session \<Rightarrow> ('t, 'n, 'o) session" where
  "train_step T = (\<lambda>(inputs, labels) st.
     (let steps' = steps st + 1;
          m0 = zero_grad (s_optimizer st) (s_model st);
          logps = forward T m0 inputs;
          tr = trace st @ [Forward (training m0) True inputs];
          m = m0\<lparr>buffers := (if training m0
                             then map (track T m0 inputs) [0..<length (buffers m0)]
                             else buffers m0)\<rparr>;
          loss = criterion T logps labels;
          m = backward T m0 inputs labels m;
          (m, opt) = opt_step T (s_optimizer st) m
      in st\<lparr>s_model := m, s_optimizer := opt, steps := steps',
              running_loss := fadd T (running_loss st) (item T loss), trace := tr\<rparr>))"

text \<open>Lines 70 to 100: the body of the inner loop.\<close>

definition train_batch ::
  "('t, 'n, 'o) torch \<Rightarrow> nat \<Rightarrow> int \<Rightarrow> ('t \<times> 't) list \<Rightarrow> 't \<times> 't \<Rightarrow> ('t, 'n, 'o) session
     \<Rightarrow> (error \<times> ('t, 'n, 'o) session) + ('t, 'n, 'o) session" where
  "train_batch T epoch epochs validateloader b st =
     (let st = train_step T b st
      in if steps st mod print_every = 0
         then validation T epoch epochs validateloader st
         else Inr st)"

text \<open>The inner loop: an exception ends it.\<close>

fun train_epoch ::
  "('t, 'n, 'o) torch \<Rightarrow> nat \<Rightarrow> int \<Rightarrow> ('t \<times> 't) list \<Rightarrow> ('t \<times> 't) list
     \<Rightarrow> ('t, 'n, 'o) session \<Rightarrow> (error \<times> ('t, 'n, 'o) session) + ('t, 'n, 'o) session" where
  "train_epoch T epoch epochs validateloader [] st = Inr st"
| "train_epoch T epoch epochs validateloader (b # bs) st =
     (case train_batch T epoch epochs validateloader b st of
        Inl e \<Rightarrow> Inl e
      | Inr st' \<Rightarrow> train_epoch T epoch epochs validateloader bs st')"

text \<open>The outer loop, over \<open>range(epochs)\<close>.\<close>

fun epoch_loop ::
  "('t, 'n, 'o) torch \<Rightarrow> int \<Rightarrow> ('t \<times> 't) list \<Rightarrow> ('t \<times> 't) list \<Rightarrow> nat list
     \<Rightarrow> ('t, 'n, 'o) session \<Rightarrow> (error \<times> ('t, 'n, 'o) session) + ('t, 'n, 'o) session" where
  "epoch_loop T epochs trainloader validateloader [] st = Inr st"
| "epoch_loop T epochs trainloader validateloader (epoch # es) st =
     (case train_epoch T epoch epochs validateloader trainloader st of
        Inl e \<Rightarrow> Inl e
      | Inr st' \<Rightarrow> epoch_loop T epochs trainloader validateloader es st')"

text \<open>Lines 61 to 66: the session the loops start from.\<close>

definition start ::
  "('t, 'n, 'o) torch \<Rightarrow> 't model \<Rightarrow> ('n, 'o) optimizer \<Rightarrow> ('t, 'n, 'o) session" where
  "start T m opt =
     \<lparr>s_model = m, s_optimizer = opt, steps = 0, running_loss = num T 0,
      trace = [Print ''Model is Training...'']\<rparr>"

text \<open>
  train_model. The device argument only moves the batches (\<open>inputs.to(device)\<close>) and the
  criterion is part of \<open>T\<close>; the elapsed time is printed last.
\<close>

definition train_model ::
  "('t, 'n, 'o) torch \<Rightarrow> int \<Rightarrow> ('t \<times> 't) list \<Rightarrow> ('t \<times> 't) list \<Rightarrow> 't model
     \<Rightarrow> ('n, 'o) optimizer \<Rightarrow> (error \<times> ('t, 'n, 'o) session) + ('t, 'n, 'o) session" where
  "train_model T epochs trainloader validateloader m opt =
     (case epoch_loop T epochs trainloader validateloader [0..<nat epochs] (start T m opt) of
        Inl e \<Rightarrow> Inl e
      | Inr st \<Rightarrow> Inr (st\<lparr>trace := trace st @ [Elapsed]\<rparr>))"

text \<open>The session a run ends in, whether by an exception or not.\<close>

definition final :: "(error \<times> 's) + 's \<Rightarrow> 's" where
  "final r = (case r of Inl (e, st) \<Rightarrow> st | Inr st \<Rightarrow> st)"

section \<open>save_checkpoint and main\<close>

text \<open>
  \<open>model.state_dict()\<close>: the tensors of all parameters and buffers, each under its key.
  A key is the place of the parameter or of the buffer in the model.
\<close>

datatype skey = ParamKey pref | BufferKey nat

definition state_dict :: "'t model \<Rightarrow> (skey \<times> 't) list" where
  "state_dict m =
     map (\<lambda>(r, p). (ParamKey r, data p)) (named_parameters m) @
     map (\<lambda>(i, b). (BufferKey i, b)) (enumerate 0 (buffers m))"

text \<open>
  \<open>optimizer.state_dict()\<close>: Adam's state and the one parameter group, with its learning
  rate and the indices of its parameters.
\<close>

record ('n, 'o) optimizer_state =
  sd_state :: 'o
  sd_lr :: 'n
  sd_params :: "nat list"

definition optimizer_state_dict :: "('n, 'o) optimizer \<Rightarrow> ('n, 'o) optimizer_state" where
  "optimizer_state_dict opt =
     \<lparr>sd_state = opt_state opt, sd_lr = lr opt, sd_params = [0..<length (param_refs opt)]\<rparr>"

text \<open>The values of the checkpoint dictionary.\<close>

datatype ('t, 'n, 'o) pyval =
    PStr string
  | PInt int
  | PNum 'n
  | PModule "(string \<times> 't layer) list"
  | PStateDict "(skey \<times> 't) list"
  | PClassToIdx "(string \<times> nat) list"
  | POptimizer "('n, 'o) optimizer_state"

type_synonym ('t, 'n, 'o) checkpoint = "(string \<times> ('t, 'n, 'o) pyval) list"

text \<open>
  An ImageFolder dataset: its \<open>class_to_idx\<close>, and the batches a DataLoader over it
  yields.
\<close>

record 't dataset =
  ds_class_to_idx :: "(string \<times> nat) list"
  ds_batches :: "('t \<times> 't) list"

text \<open>
  Lines 106 to 125. \<open>fs\<close> is the file system, a map from paths to what \<open>torch.save\<close>
  wrote there. \<open>image_datasets[0]\<close> raises on an empty list.
\<close>

definition save_checkpoint ::
  "(string \<rightharpoonup> ('t, 'n, 'o) checkpoint) \<Rightarrow> string \<Rightarrow> 't model \<Rightarrow> 't dataset list \<Rightarrow> int
     \<Rightarrow> ('n, 'o) optimizer \<Rightarrow> 'n \<Rightarrow> int \<Rightarrow> int \<Rightarrow> string \<Rightarrow> int
     \<Rightarrow> error + ('t model \<times> (string \<rightharpoonup> ('t, 'n, 'o) checkpoint) \<times> ('t, 'n) event list)" where
  "save_checkpoint fs file_path model image_datasets epochs optimizer learning_rate
       input_size output_size arch hidden_units =
     (case image_datasets of
        [] \<Rightarrow> Inl IndexError
      | d # ds \<Rightarrow>
          (let model = model\<lparr>class_to_idx := Some (ds_class_to_idx d)\<rparr>;
               ckpt =
                 [(''pretrained_model'', PStr arch),
                  (''input_size'', PInt input_size),
                  (''output_size'', PInt output_size),
                  (''learning_rate'', PNum learning_rate),
                  (''hidden_units'', PInt hidden_units),
                  (''classifier'', PModule (classifier model)),
                  (''epochs'', PInt epochs),
                  (''state_dict'', PStateDict (state_dict model)),
                  (''class_to_idx'', PClassToIdx (ds_class_to_idx d)),
                  (''optimizer'', POptimizer (optimizer_state_dict optimizer))]
           in Inr (model, fs(file_path \<mapsto> ckpt), [Print ''Model saved to storage...''])))"

text \<open>
  Lines 127 to 163. \<open>image_folder\<close> is \<open>datasets.ImageFolder\<close> with the transform, by
  directory. The label file \<open>cat_to_name.json\<close> is read and not used. The result is the
  trained model, the optimizer, the file system and all that was printed.
\<close>

definition main ::
  "'t torchenv \<Rightarrow> ('t, 'n, 'o) torch \<Rightarrow> 'n \<Rightarrow> (string \<Rightarrow> 't dataset)
     \<Rightarrow> (string \<rightharpoonup> ('t, 'n, 'o) checkpoint) \<Rightarrow> 'n raw_args
     \<Rightarrow> error + ('t model \<times> ('n, 'o) optimizer \<times> (string \<rightharpoonup> ('t, 'n, 'o) checkpoint)
                \<times> ('t, 'n) event list)" where
  "main E T lrn_default image_folder fs raw =
     (case parse_args lrn_default raw of
        Inl e \<Rightarrow> Inl e
      | Inr args \<Rightarrow>
          (let image_datasets =
                 map (\<lambda>x. image_folder (arg_data_dir args @ ''/'' @ x))
                   [''train'', ''valid'', ''test''];
               dataloaders = map ds_batches image_datasets
           in case load_model E (arg_arch args) (arg_hidden_units args) (arg_gpu args) of
                Inl e \<Rightarrow> Inl e
              | Inr (model, device, num_in_features) \<Rightarrow>
                  (let optimizer = Adam T (classifier_refs model) (arg_learning_rate args)
                   in case train_model T (arg_epochs args) (dataloaders ! 0) (dataloaders ! 1)
                             model optimizer of
                        Inl (e, st) \<Rightarrow> Inl e
                      | Inr st \<Rightarrow>
                          (case save_checkpoint fs (arg_save_dir args) (s_model st)
                                  image_datasets (arg_epochs args) (s_optimizer st)
                                  (arg_learning_rate args) num_in_features 102
                                  (arg_arch args) (arg_hidden_units args) of
                             Inl e \<Rightarrow> Inl e
                           | Inr (model, fs, out) \<Rightarrow>
                               Inr (model, s_optimizer st, fs,
                                    Print ''Loading the data...'' # trace st @ out)))))"

section \<open>Loading a checkpoint\<close>

text \<open>
  \<open>model.load_state_dict(sd)\<close>: the keys must be those of the model; then every
  parameter and buffer takes the tensor stored under its key.
\<close>

definition load_state_dict :: "(skey \<times> 't) list \<Rightarrow> 't model \<Rightarrow> error + 't model" where
  "load_state_dict sd m =
     (if map fst sd \<noteq> map fst (state_dict m) then Inl StateDictMismatch
      else Inr ((map_params (\<lambda>r p. p\<lparr>data := the (map_of sd (ParamKey r))\<rparr>) m)
                  \<lparr>buffers := map (\<lambda>i. the (map_of sd (BufferKey i)))
                                [0..<length (buffers m)]\<rparr>))"

text \<open>
  \<open>optimizer.load_state_dict(osd)\<close>: the parameter group must have as many parameters
  as the optimizer; then state and learning rate are those stored.
\<close>

definition optimizer_load_state_dict ::
  "('n, 'o) optimizer_state \<Rightarrow> ('n, 'o) optimizer \<Rightarrow> error + ('n, 'o) optimizer" where
  "optimizer_load_state_dict osd opt =
     (if sd_params osd \<noteq> [0..<length (param_refs opt)] then Inl StateDictMismatch
      else Inr (opt\<lparr>opt_state := sd_state osd, lr := sd_lr osd\<rparr>))"

text \<open>
  Modelled from the spec: the Load side of the checkpoint codec, which train.py does not
  contain (spec 4.5: "not implemented in-scope"). Given the artifact at \<open>path\<close>, it
  rebuilds the model with load_model from the stored architecture name and hidden_units,
  loads the stored parameter values, attaches the stored class_to_idx, and primes an
  optimizer over the head with the stored optimizer state.
\<close>

definition load_checkpoint ::
  "'t torchenv \<Rightarrow> ('t, 'n, 'o) torch \<Rightarrow> (string \<rightharpoonup> ('t, 'n, 'o) checkpoint) \<Rightarrow> string \<Rightarrow> bool
     \<Rightarrow> error + ('t model \<times> ('n, 'o) optimizer)" where
  "load_checkpoint E T fs path gpu =
     (case fs path of
        None \<Rightarrow> Inl FileNotFoundError
      | Some ckpt \<Rightarrow>
          (case (map_of ckpt ''pretrained_model'', map_of ckpt ''hidden_units'',
                 map_of ckpt ''state_dict'', map_of ckpt ''class_to_idx'',
                 map_of ckpt ''optimizer'', map_of ckpt ''learning_rate'') of
             (Some (PStr arch), Some (PInt hidden_units), Some (PStateDict sd),
              Some (PClassToIdx c2i), Some (POptimizer osd), Some (PNum lrn)) \<Rightarrow>
               (case load_model E arch hidden_units gpu of
                  Inl e \<Rightarrow> Inl e
                | Inr (model, device, num_in_features) \<Rightarrow>
                    (case load_state_dict sd model of
                       Inl e \<Rightarrow> Inl e
                     | Inr model \<Rightarrow>
                         (case optimizer_load_state_dict osd
                                 (Adam T (classifier_refs model) lrn) of
                            Inl e \<Rightarrow> Inl e
                          | Inr optimizer \<Rightarrow>
                              Inr (model\<lparr>class_to_idx := Some c2i\<rparr>, optimizer))))
           | _ \<Rightarrow> Inl KeyError))"

section \<open>Reading a trace\<close>

text \<open>
  A forward pass with gradients tracked is a training step. \<open>validations_after k tr\<close>
  lists, for every report of the trace, the number of training steps made before it,
  counting from \<open>k\<close>; \<open>count_train\<close> counts the training steps; \<open>trailing k tr\<close> is the
  number of training steps since the last report; \<open>report_epochs\<close> lists the epoch
  numbers the reports print; \<open>passes\<close> lists, for every report, the inputs forwarded
  without gradients since the report before.
\<close>

fun validations_after :: "nat \<Rightarrow> ('t, 'n) event list \<Rightarrow> nat list" where
  "validations_after k [] = []"
| "validations_after k (Forward tm True x # es) = validations_after (Suc k) es"
| "validations_after k (Report e n a b c # es) = k # validations_after k es"
| "validations_after k (ev # es) = validations_after k es"

fun count_train :: "('t, 'n) event list \<Rightarrow> nat" where
  "count_train [] = 0"
| "count_train (Forward tm True x # es) = Suc (count_train es)"
| "count_train (ev # es) = count_train es"

fun trailing :: "nat \<Rightarrow> ('t, 'n) event list \<Rightarrow> nat" where
  "trailing k [] = k"
| "trailing k (Forward tm True x # es) = trailing (Suc k) es"
| "trailing k (Report e n a b c # es) = trailing 0 es"
| "trailing k (ev # es) = trailing k es"

fun report_epochs :: "('t, 'n) event list \<Rightarrow> int list" where
  "report_epochs [] = []"
| "report_epochs (Report e n a b c # es) = e # report_epochs es"
| "report_epochs (ev # es) = report_epochs es"

fun passes :: "'t list \<Rightarrow> ('t, 'n) event list \<Rightarrow> 't list list" where
  "passes acc [] = []"
| "passes acc (Forward tm False x # es) = passes (acc @ [x]) es"
| "passes acc (Report e n a b c # es) = acc # passes [] es"
| "passes acc (ev # es) = passes acc es"

fun pending :: "'t list \<Rightarrow> ('t, 'n) event list \<Rightarrow> 't list" where
  "pending acc [] = acc"
| "pending acc (Forward tm False x # es) = pending (acc @ [x]) es"
| "pending acc (Report e n a b c # es) = pending [] es"
| "pending acc (ev # es) = pending acc es"

text \<open>
  The batches of an epoch of \<open>n\<close> batches after which validation runs, when \<open>s\<close>
  training steps were made before the epoch: those whose cumulative step number is a
  multiple of 5.
\<close>

definition triggers :: "nat \<Rightarrow> nat \<Rightarrow> nat list" where
  "triggers s n = [i \<leftarrow> [1..<Suc n]. (s + i) mod 5 = 0]"

text \<open>The loss of the training step on batch \<open>b\<close> from session \<open>st\<close> (lines 72 to 74).\<close>

definition step_loss :: "('t, 'n, 'o) torch \<Rightarrow> 't \<times> 't \<Rightarrow> ('t, 'n, 'o) session \<Rightarrow> 'n" where
  "step_loss T b st =
     item T (criterion T (forward T (zero_grad (s_optimizer st) (s_model st)) (fst b)) (snd b))"

text \<open>The losses of the training steps on the batches \<open>bs\<close>, one after the other.\<close>

fun step_losses :: "('t, 'n, 'o) torch \<Rightarrow> ('t \<times> 't) list \<Rightarrow> ('t, 'n, 'o) session \<Rightarrow> 'n list" where
  "step_losses T [] st = []"
| "step_losses T (b # bs) st = step_loss T b st # step_losses T bs (train_step T b st)"

text \<open>The loss and the accuracy of one validation batch (lines 87 to 93).\<close>

definition batch_loss :: "('t, 'n, 'o) torch \<Rightarrow> 't model \<Rightarrow> 't \<times> 't \<Rightarrow> 'n" where
  "batch_loss T m b = item T (criterion T (forward T m (fst b)) (snd b))"

definition batch_accuracy :: "('t, 'n, 'o) torch \<Rightarrow> 't model \<Rightarrow> 't \<times> 't \<Rightarrow> 'n" where
  "batch_accuracy T m b =
     mean_item T (tequals T (topk1 T (texp T (forward T m (fst b)))) (snd b))"

section \<open>The run as one sequence of steps\<close>

text \<open>
  The steps of a run in the order the two loops make them: the batches of the train
  source, each with the index of its epoch, epoch after epoch.
\<close>

definition schedule :: "nat list \<Rightarrow> ('t \<times> 't) list \<Rightarrow> (nat \<times> 't \<times> 't) list" where
  "schedule es trainloader = concat (map (\<lambda>epoch. map (Pair epoch) trainloader) es)"

text \<open>
  The loop body (lines 70 to 100) on such steps, one after the other; an exception ends
  it. The two nested loops are this one loop over the schedule (lemma
  \<open>epoch_loop_run_steps\<close> below).
\<close>

fun run_steps ::
  "('t, 'n, 'o) torch \<Rightarrow> int \<Rightarrow> ('t \<times> 't) list \<Rightarrow> (nat \<times> 't \<times> 't) list
     \<Rightarrow> ('t, 'n, 'o) session \<Rightarrow> (error \<times> ('t, 'n, 'o) session) + ('t, 'n, 'o) session" where
  "run_steps T epochs validateloader [] st = Inr st"
| "run_steps T epochs validateloader ((epoch, b) # xs) st =
     (case train_batch T epoch epochs validateloader b st of
        Inl e \<Rightarrow> Inl e
      | Inr st' \<Rightarrow> run_steps T epochs validateloader xs st')"

section \<open>A small concrete environment\<close>

text \<open>
  Tensors are integers here. The two pretrained models have two backbone parameters each
  (trainable, as torchvision delivers them), one buffer and a classifier of their own.
\<close>

definition p0 :: "int \<Rightarrow> int param" where
  "p0 v = \<lparr>data = v, requires_grad = True, grad = None\<rparr>"

definition env0 :: "int torchenv" where
  "env0 =
     \<lparr>cuda_available = False,
      vgg16 = \<lparr>backbone = [p0 11, p0 12], buffers = [],
                classifier = [(''0'', Linear 25088 4096 (p0 13) (p0 14)), (''1'', ReLU),
                              (''2'', Dropout)],
                training = True, on_device = Cpu, class_to_idx = None\<rparr>,
      densenet121 = \<lparr>backbone = [p0 21, p0 22], buffers = [7],
                      classifier = [(''classifier'', Linear 1024 1000 (p0 23) (p0 24))],
                      training = True, on_device = Cpu, class_to_idx = None\<rparr>,
      init = (\<lambda>k i j. (int k, 0))\<rparr>"

text \<open>
  Torch on integers: the forward pass adds the parameters to the input, and one more in
  training mode; every gradient is 1 and Adam subtracts it; a hit of the top class counts
  100 (per cent); division is integer division.
\<close>

definition torch0 :: "(int, int, nat) torch" where
  "torch0 =
     \<lparr>forward = (\<lambda>m x. x + sum_list (map data (parameters m)) + (if training m then 1 else 0)),
      track = (\<lambda>m x i. buffers m ! i + 1),
      criterion = (\<lambda>logps labels. logps - labels),
      item = (\<lambda>t. t),
      gradient = (\<lambda>m x y r. 1),
      tadd = (\<lambda>a b. a + b),
      adam_init = 0,
      adam_update = (\<lambda>l s r d g. d - g),
      adam_state = (\<lambda>s gs. s + length gs),
      texp = (\<lambda>t. t),
      topk1 = (\<lambda>t. t),
      tequals = (\<lambda>a b. if a = b then 100 else 0),
      mean_item = (\<lambda>t. t),
      fadd = (\<lambda>a b. a + b),
      fdiv = (\<lambda>a b. a div b),
      num = (\<lambda>i. i)\<rparr>"

text \<open>
  The model that load_model assembles in this environment for densenet121 with two
  hidden units, an optimizer over its head, a train source of twelve batches and a
  validation source of one.
\<close>

definition model0 :: "int model" where
  "model0 =
     \<lparr>backbone = [\<lparr>data = 21, requires_grad = False, grad = None\<rparr>,
                  \<lparr>data = 22, requires_grad = False, grad = None\<rparr>],
      buffers = [7],
      classifier =
        [(''fc1'', Linear 1024 2 (p0 0) (p0 0)), (''relu1'', ReLU),
         (''fc2'', Linear 2 2 (p0 1) (p0 0)), (''relu2'', ReLU),
         (''fc3'', Linear 2 102 (p0 2) (p0 0)), (''output'', LogSoftmax 1)],
      training = True, on_device = Cpu, class_to_idx = None\<rparr>"

definition opt0 :: "(int, nat) optimizer" where
  "opt0 = Adam torch0 (classifier_refs model0) 1"

definition train12 :: "(int \<times> int) list" where
  "train12 = map (\<lambda>i. (int i, 0)) [0..<12]"

definition valid1 :: "(int \<times> int) list" where
  "valid1 = [(0, 0)]"

text \<open>
  A train source of seven batches, so that the second epoch begins after step 7, and a
  validation source of three batches, the first and the last of which the model above
  classifies right.
\<close>

definition train7 :: "(int \<times> int) list" where
  "train7 = map (\<lambda>i. (100 + int i, 0)) [0..<7]"

definition valid3 :: "(int \<times> int) list" where
  "valid3 = [(0, 46), (3, 0), (6, 52)]"

text \<open>
  Of a run of two epochs over \<open>train7\<close>: the first five steps, and the steps 6 to 9,
  which are the last two batches of the first epoch and the first two of the second.
\<close>

definition first5 :: "(nat \<times> int \<times> int) list" where
  "first5 = [(0, 100, 0), (0, 101, 0), (0, 102, 0), (0, 103, 0), (0, 104, 0)]"

definition across4 :: "(nat \<times> int \<times> int) list" where
  "across4 = [(0, 105, 0), (0, 106, 0), (1, 100, 0), (1, 101, 0)]"

text \<open>The steps 6 to 10 of that run, and the steps after them.\<close>

definition across5 :: "(nat \<times> int \<times> int) list" where
  "across5 = across4 @ [(1, 102, 0)]"

definition last4 :: "(nat \<times> int \<times> int) list" where
  "last4 = [(1, 103, 0), (1, 104, 0), (1, 105, 0), (1, 106, 0)]"

section \<open>Properties of model assembly\<close>

lemma build_classifier_ok:
  assumes "0 \<le> i" "0 \<le> h"
  shows "\<exists>c. build_classifier E i h = Inr c \<and> topology c = head_topology i h
           \<and> (\<forall>p \<in> set (concat (map (\<lambda>(n, l). layer_parameters l) c)). requires_grad p)"
  using assms by (simp add: build_classifier_def nn_Linear_def topology_def head_topology_def)

lemma build_classifier_neg:
  "h < 0 \<Longrightarrow> build_classifier E i h = Inl InvalidHeadDimensions"
  by (simp add: build_classifier_def nn_Linear_def)

text \<open>
  C4. For positive input and hidden widths the head is built, and it is
  linear(input to hidden), nonlinearity, linear(hidden to hidden), nonlinearity,
  linear(hidden to 102), log-softmax, under the names fc1, relu1, fc2, relu2, fc3, output,
  in this order; the layer order and the dimensions do not depend on the environment, so
  not on the values the parameters are initialised with.
\<close>

theorem head_fixed_topology:
  assumes "0 < input_width" and "0 < hidden_width"
  shows "\<exists>c. build_classifier E input_width hidden_width = Inr c
            \<and> topology c =
                [(''fc1'', LinearK input_width hidden_width), (''relu1'', ReLUK),
                 (''fc2'', LinearK hidden_width hidden_width), (''relu2'', ReLUK),
                 (''fc3'', LinearK hidden_width 102), (''output'', LogSoftmaxK 1)]
            \<and> (\<forall>E'. \<exists>c'. build_classifier E' input_width hidden_width = Inr c'
                        \<and> topology c' = topology c)"
  using assms by (simp add: build_classifier_def nn_Linear_def topology_def)

theorem head_fixed_topology_witness:
  "(0::int) < 25088 \<and> (0::int) < 512 \<and>
   (\<exists>c. build_classifier env0 25088 512 = Inr c
       \<and> topology c =
            [(''fc1'', LinearK 25088 512), (''relu1'', ReLUK),
             (''fc2'', LinearK 512 512), (''relu2'', ReLUK),
             (''fc3'', LinearK 512 102), (''output'', LogSoftmaxK 1)])"
  using head_fixed_topology [of 25088 512 env0] by auto

lemma load_model_else_branch:
  "arch \<noteq> ''vgg16'' \<Longrightarrow> load_model E arch hu gpu = load_model E ''densenet121'' hu gpu"
  by (simp add: load_model_def)

lemma load_model_Inr:
  assumes "load_model E arch hu gpu = Inr (m, d, n)"
  shows "n = (if arch = ''vgg16'' then 25088 else 1024)"
    and "backbone m = backbone (freeze (if arch = ''vgg16'' then vgg16 E else densenet121 E))"
    and "buffers m = buffers (if arch = ''vgg16'' then vgg16 E else densenet121 E)"
    and "build_classifier E n hu = Inr (classifier m)"
    and "d = (if gpu then Cuda else Cpu)" and "on_device m = d"
    and "gpu \<longrightarrow> cuda_available E"
  using assms
  by (auto simp: load_model_def to_device_def freeze_def Let_def
           split: if_splits sum.splits)

text \<open>
  C7, as the code has it. load_model does not check the name: every name other than
  vgg16 takes the densenet121 branch, with feature width 1024, and gives what the name
  densenet121 gives. A name outside the two choices is refused by parse_args, with
  argparse's invalid-choice error, before load_model is reached.
\<close>

theorem registry_other_name:
  "(arch \<noteq> ''vgg16'' \<longrightarrow>
      load_model E arch hu gpu = load_model E ''densenet121'' hu gpu
      \<and> (\<forall>m d n. load_model E arch hu gpu = Inr (m, d, n) \<longrightarrow>
            n = 1024 \<and> backbone m = backbone (freeze (densenet121 E))))
   \<and> (arch \<notin> set arch_choices \<longrightarrow>
        parse_args lrn (r\<lparr>raw_arch := Some arch\<rparr>) = Inl InvalidChoice)
   \<and> (\<forall>a. parse_args lrn r = Inr a \<longrightarrow> arg_arch a \<in> set arch_choices)"
proof (intro conjI impI allI)
  assume "arch \<noteq> ''vgg16''"
  then show "load_model E arch hu gpu = load_model E ''densenet121'' hu gpu"
    by (rule load_model_else_branch)
next
  fix m d n
  assume "arch \<noteq> ''vgg16''" and "load_model E arch hu gpu = Inr (m, d, n)"
  then show "n = 1024" using load_model_Inr(1) by fastforce
next
  fix m d n
  assume "arch \<noteq> ''vgg16''" and "load_model E arch hu gpu = Inr (m, d, n)"
  then show "backbone m = backbone (freeze (densenet121 E))"
    using load_model_Inr(2) by fastforce
next
  assume "arch \<notin> set arch_choices"
  then show "parse_args lrn (r\<lparr>raw_arch := Some arch\<rparr>) = Inl InvalidChoice"
    by (simp add: parse_args_def default_def)
next
  fix a
  assume "parse_args lrn r = Inr a"
  then show "arg_arch a \<in> set arch_choices"
    by (auto simp: parse_args_def Let_def split: if_splits)
qed

text \<open>
  The claim C7 as stated fails: for the name resnet18, which is none of the two choices,
  load_model returns the assembled densenet121 model and the width 1024.
\<close>

theorem registry_other_name_counterexample:
  "''resnet18'' \<notin> set arch_choices \<and>
   load_model env0 ''resnet18'' 512 False =
     Inr (\<lparr>backbone = [\<lparr>data = 21, requires_grad = False, grad = None\<rparr>,
                       \<lparr>data = 22, requires_grad = False, grad = None\<rparr>],
           buffers = [7],
           classifier =
             [(''fc1'', Linear 1024 512 (p0 0) (p0 0)), (''relu1'', ReLU),
              (''fc2'', Linear 512 512 (p0 1) (p0 0)), (''relu2'', ReLU),
              (''fc3'', Linear 512 102 (p0 2) (p0 0)), (''output'', LogSoftmax 1)],
           training = True, on_device = Cpu, class_to_idx = None\<rparr>, Cpu, 1024)"
  by (simp add: arch_choices_def load_model_def env0_def p0_def freeze_def
        build_classifier_def nn_Linear_def to_device_def)

theorem registry_other_name_witness:
  "''resnet18'' \<noteq> ''vgg16'' \<and> ''resnet18'' \<notin> set arch_choices \<and>
   load_model env0 ''resnet18'' 512 False = load_model env0 ''densenet121'' 512 False \<and>
   parse_args (1::int) \<lparr>raw_data_dir = ''flowers'', raw_save_dir = None,
       raw_arch = Some ''resnet18'', raw_lrn = None, raw_hidden_units = None,
       raw_epochs = None, raw_gpu = False\<rparr> = Inl InvalidChoice \<and>
   parse_args (1::int) \<lparr>raw_data_dir = ''flowers'', raw_save_dir = None,
       raw_arch = None, raw_lrn = None, raw_hidden_units = None,
       raw_epochs = None, raw_gpu = False\<rparr> =
     Inr \<lparr>arg_data_dir = ''flowers'', arg_save_dir = ''train_checkpoint.pth'',
          arg_arch = ''vgg16'', arg_learning_rate = 1, arg_hidden_units = 512,
          arg_epochs = 1, arg_gpu = False\<rparr> \<and>
   ''vgg16'' \<in> set arch_choices"
  using registry_other_name [of "''resnet18''" env0 512 False 1
          "\<lparr>raw_data_dir = ''flowers'', raw_save_dir = None,
            raw_arch = None, raw_lrn = None, raw_hidden_units = None,
            raw_epochs = None, raw_gpu = False\<rparr>"]
  by (simp add: arch_choices_def parse_args_def default_def)

text \<open>
  C8. When the accelerator is requested and there is none, load_model fails: it returns
  no model, on no device. The error is the device error of \<open>model.to\<close> whenever the head
  could be built (a negative hidden_units fails earlier, in nn.Linear).
\<close>

theorem accelerator_missing_fails:
  assumes "gpu" and "\<not> cuda_available E"
  shows "isl (load_model E arch hidden_units gpu)
         \<and> (0 \<le> hidden_units \<longrightarrow>
              load_model E arch hidden_units gpu = Inl DeviceUnavailable)"
  using assms
  by (auto simp: load_model_def to_device_def build_classifier_def nn_Linear_def Let_def
           split: sum.splits)

theorem accelerator_missing_fails_witness:
  "\<not> cuda_available env0 \<and> (0::int) \<le> 512 \<and>
   load_model env0 ''vgg16'' 512 True = Inl DeviceUnavailable"
  using accelerator_missing_fails [of True env0 "''vgg16''" 512]
  by (simp add: env0_def)

section \<open>Lemmas on the training loop\<close>

lemma fold_validate_batch:
  "fold (validate_batch T m) vs (a, b, tr) =
     (foldl (fadd T) a (map (batch_loss T m) vs),
      foldl (fadd T) b (map (batch_accuracy T m) vs),
      tr @ map (\<lambda>b. Forward (training m) False (fst b)) vs)"
  by (induction vs arbitrary: a b tr)
     (auto simp: validate_batch_def batch_loss_def batch_accuracy_def Let_def)

lemma validation_empty:
  "validation T epoch epochs [] st =
     Inl (ZeroDivisionError, st\<lparr>s_model := (s_model st)\<lparr>training := False\<rparr>\<rparr>)"
  by (simp add: validation_def)

lemma validation_nonempty:
  assumes "vs \<noteq> []"
  shows "validation T epoch epochs vs st =
     Inr (st\<lparr>trace := trace st
                 @ map (\<lambda>b. Forward False False (fst b)) vs
                 @ [Report (int epoch + 1) epochs
                      (fdiv T (running_loss st) (num T 5))
                      (fdiv T (foldl (fadd T) (num T 0)
                                 (map (batch_loss T ((s_model st)\<lparr>training := False\<rparr>)) vs))
                         (num T (int (length vs))))
                      (fdiv T (foldl (fadd T) (num T 0)
                                 (map (batch_accuracy T ((s_model st)\<lparr>training := False\<rparr>)) vs))
                         (num T (int (length vs))))],
              running_loss := num T 0,
              s_model := (s_model st)\<lparr>training := True\<rparr>\<rparr>)"
  using assms
  by (simp add: validation_def fold_validate_batch print_every_def Let_def)

lemma zero_grad_training [simp]: "training (zero_grad opt m) = training m"
  by (simp add: zero_grad_def map_params_def)

lemma steps_train_step [simp]: "steps (train_step T b st) = Suc (steps st)"
  by (cases b) (simp add: train_step_def Let_def split: prod.splits)

lemma trace_train_step [simp]:
  "trace (train_step T b st) = trace st @ [Forward (training (s_model st)) True (fst b)]"
  by (cases b) (simp add: train_step_def Let_def split: prod.splits)

lemma running_loss_train_step [simp]:
  "running_loss (train_step T b st) = fadd T (running_loss st) (step_loss T b st)"
  by (cases b) (simp add: train_step_def step_loss_def Let_def split: prod.splits)

lemma train_batch_quiet:
  "Suc (steps st) mod 5 \<noteq> 0 \<Longrightarrow>
     train_batch T epoch epochs vs b st = Inr (train_step T b st)"
  by (simp add: train_batch_def print_every_def Let_def)

lemma train_batch_trigger:
  "Suc (steps st) mod 5 = 0 \<Longrightarrow>
     train_batch T epoch epochs vs b st = validation T epoch epochs vs (train_step T b st)"
  by (simp add: train_batch_def print_every_def Let_def)

subsection \<open>Traces\<close>

lemma validations_after_append:
  "validations_after k (xs @ ys) =
     validations_after k xs @ validations_after (k + count_train xs) ys"
  by (induction k xs rule: validations_after.induct) auto

lemma count_train_append: "count_train (xs @ ys) = count_train xs + count_train ys"
  by (induction xs rule: count_train.induct) auto

lemma trailing_append: "trailing k (xs @ ys) = trailing (trailing k xs) ys"
  by (induction k xs rule: trailing.induct) auto

lemma report_epochs_append: "report_epochs (xs @ ys) = report_epochs xs @ report_epochs ys"
  by (induction xs rule: report_epochs.induct) auto

lemma passes_append: "passes acc (xs @ ys) = passes acc xs @ passes (pending acc xs) ys"
  by (induction acc xs rule: passes.induct) auto

lemma pending_append: "pending acc (xs @ ys) = pending (pending acc xs) ys"
  by (induction acc xs rule: pending.induct) auto

lemma val_forwards [simp]:
  "validations_after k (map (\<lambda>b. Forward False False (fst b)) vs @ es) = validations_after k es"
  "count_train (map (\<lambda>b. Forward False False (fst b)) vs @ es) = count_train es"
  "trailing k (map (\<lambda>b. Forward False False (fst b)) vs @ es) = trailing k es"
  "report_epochs (map (\<lambda>b. Forward False False (fst b)) vs @ es) = report_epochs es"
  "passes acc (map (\<lambda>b. Forward False False (fst b)) vs @ es) = passes (acc @ map fst vs) es"
  "pending acc (map (\<lambda>b. Forward False False (fst b)) vs @ es) = pending (acc @ map fst vs) es"
  by (induction vs arbitrary: acc) auto

text \<open>One pass of the loop body, validation source not empty.\<close>

lemma train_batch_nonempty:
  assumes "vs \<noteq> []"
  shows "\<exists>st' evs. train_batch T epoch epochs vs b st = Inr st'
           \<and> steps st' = Suc (steps st)
           \<and> trace st' = trace st @ evs
           \<and> count_train evs = 1
           \<and> validations_after k evs = (if Suc (steps st) mod 5 = 0 then [Suc k] else [])
           \<and> trailing j evs = (if Suc (steps st) mod 5 = 0 then 0 else Suc j)
           \<and> report_epochs evs = (if Suc (steps st) mod 5 = 0 then [int epoch + 1] else [])
           \<and> passes [] evs = (if Suc (steps st) mod 5 = 0 then [map fst vs] else [])
           \<and> pending [] evs = []"
  using assms
  by (auto simp: train_batch_def Let_def validation_nonempty print_every_def)

lemma triggers_0 [simp]: "triggers s 0 = []"
  by (simp add: triggers_def)

lemma triggers_Suc:
  "triggers s (Suc n) = (if Suc s mod 5 = 0 then [1] else []) @ map Suc (triggers (Suc s) n)"
proof -
  have "[1..<Suc (Suc n)] = 1 # map Suc [1..<Suc n]"
    by (subst upt_conv_Cons) (simp_all add: map_Suc_upt del: upt_Suc)
  then show ?thesis
    by (simp add: triggers_def filter_map o_def del: upt_Suc)
qed

lemma triggers_add:
  "triggers s (a + b) = triggers s a @ map (\<lambda>i. a + i) (triggers (s + a) b)"
proof (induction a arbitrary: s)
  case 0
  have "(+) (0::nat) = (\<lambda>i. i)" by auto
  then show ?case by simp
next
  case (Suc a)
  then show ?case by (simp add: triggers_Suc o_def)
qed

lemma train_epoch_nonempty:
  assumes "vs \<noteq> []"
  shows "\<exists>st' evs. train_epoch T epoch epochs vs bs st = Inr st'
           \<and> steps st' = steps st + length bs
           \<and> trace st' = trace st @ evs
           \<and> count_train evs = length bs
           \<and> validations_after k evs = map (\<lambda>i. k + i) (triggers (steps st) (length bs))
           \<and> trailing (steps st mod 5) evs = (steps st + length bs) mod 5
           \<and> report_epochs evs = map (\<lambda>i. int epoch + 1) (triggers (steps st) (length bs))
           \<and> passes [] evs = map (\<lambda>i. map fst vs) (triggers (steps st) (length bs))
           \<and> pending [] evs = []"
proof (induction bs arbitrary: st k)
  case Nil
  then show ?case by simp
next
  case (Cons b bs)
  from train_batch_nonempty [OF assms, of T epoch epochs b st k "steps st mod 5"]
  obtain st1 evs1 where 1: "train_batch T epoch epochs vs b st = Inr st1"
    "steps st1 = Suc (steps st)" "trace st1 = trace st @ evs1" "count_train evs1 = 1"
    "validations_after k evs1 = (if Suc (steps st) mod 5 = 0 then [Suc k] else [])"
    "trailing (steps st mod 5) evs1 = (if Suc (steps st) mod 5 = 0 then 0 else Suc (steps st mod 5))"
    "report_epochs evs1 = (if Suc (steps st) mod 5 = 0 then [int epoch + 1] else [])"
    "passes [] evs1 = (if Suc (steps st) mod 5 = 0 then [map fst vs] else [])"
    "pending [] evs1 = []"
    by blast
  from Cons.IH [of st1 "Suc k"]
  obtain st2 evs2 where 2: "train_epoch T epoch epochs vs bs st1 = Inr st2"
    "steps st2 = steps st1 + length bs" "trace st2 = trace st1 @ evs2"
    "count_train evs2 = length bs"
    "validations_after (Suc k) evs2 = map (\<lambda>i. Suc k + i) (triggers (steps st1) (length bs))"
    "trailing (steps st1 mod 5) evs2 = (steps st1 + length bs) mod 5"
    "report_epochs evs2 = map (\<lambda>i. int epoch + 1) (triggers (steps st1) (length bs))"
    "passes [] evs2 = map (\<lambda>i. map fst vs) (triggers (steps st1) (length bs))"
    "pending [] evs2 = []"
    by blast
  have tr: "trailing (steps st mod 5) evs1 = Suc (steps st) mod 5"
    using 1(6) by (simp add: mod_Suc)
  show ?case
  proof (intro exI [of _ st2] exI [of _ "evs1 @ evs2"] conjI)
    show "train_epoch T epoch epochs vs (b # bs) st = Inr st2" using 1 2 by simp
    show "steps st2 = steps st + length (b # bs)" using 1 2 by simp
    show "trace st2 = trace st @ evs1 @ evs2" using 1 2 by simp
    show "count_train (evs1 @ evs2) = length (b # bs)"
      using 1 2 by (simp add: count_train_append)
    show "validations_after k (evs1 @ evs2) =
            map (\<lambda>i. k + i) (triggers (steps st) (length (b # bs)))"
      using 1 2 by (simp add: validations_after_append triggers_Suc o_def)
    show "trailing (steps st mod 5) (evs1 @ evs2) = (steps st + length (b # bs)) mod 5"
      using 1(2) 2(6) tr by (simp add: trailing_append)
    show "report_epochs (evs1 @ evs2) =
            map (\<lambda>i. int epoch + 1) (triggers (steps st) (length (b # bs)))"
      using 1 2 by (simp add: report_epochs_append triggers_Suc o_def)
    show "passes [] (evs1 @ evs2) =
            map (\<lambda>i. map fst vs) (triggers (steps st) (length (b # bs)))"
      using 1 2 by (simp add: passes_append triggers_Suc o_def)
    show "pending [] (evs1 @ evs2) = []"
      using 1 2 by (simp add: pending_append)
  qed
qed



subsection \<open>Loops\<close>

lemma train_epoch_append:
  "train_epoch T epoch epochs vs (xs @ ys) st =
     (case train_epoch T epoch epochs vs xs st of
        Inl e \<Rightarrow> Inl e
      | Inr s \<Rightarrow> train_epoch T epoch epochs vs ys s)"
  by (induction xs arbitrary: st) (auto split: sum.splits)

lemma epoch_loop_append:
  "epoch_loop T epochs trl vs (xs @ ys) st =
     (case epoch_loop T epochs trl vs xs st of
        Inl e \<Rightarrow> Inl e
      | Inr s \<Rightarrow> epoch_loop T epochs trl vs ys s)"
  by (induction xs arbitrary: st) (auto split: sum.splits)

lemma train_epoch_single [simp]:
  "train_epoch T epoch epochs vs [b] st = train_batch T epoch epochs vs b st"
  by (simp split: sum.splits)

lemma fold_train_step:
  "steps (fold (train_step T) bs st) = steps st + length bs"
  "report_epochs (trace (fold (train_step T) bs st)) = report_epochs (trace st)"
  "running_loss (fold (train_step T) bs st) =
     foldl (fadd T) (running_loss st) (step_losses T bs st)"
  by (induction bs arbitrary: st) (simp_all add: report_epochs_append)

text \<open>Steps that reach no multiple of 5 only train.\<close>

lemma train_epoch_quiet:
  "steps st mod 5 + length bs < 5 \<Longrightarrow>
     train_epoch T epoch epochs vs bs st = Inr (fold (train_step T) bs st)"
proof (induction bs arbitrary: st)
  case Nil
  then show ?case by simp
next
  case (Cons b bs)
  then have q: "Suc (steps st) mod 5 \<noteq> 0" "Suc (steps st) mod 5 = Suc (steps st mod 5)"
    by (auto simp: mod_Suc)
  with Cons show ?case by (simp add: train_batch_quiet)
qed

lemma step_losses_snoc:
  "step_losses T (bs @ [b]) st =
     step_losses T bs st @ [step_loss T b (fold (train_step T) bs st)]"
  by (induction bs arbitrary: st) simp_all

text \<open>Five steps from a multiple of 5: four that only train, and the fifth validates.\<close>

lemma train_epoch_window:
  assumes "length bs = 5" and "steps st mod 5 = 0"
  shows "train_epoch T epoch epochs vs bs st =
           validation T epoch epochs vs (fold (train_step T) bs st)"
proof -
  from assms(1) obtain bs4 b where bs: "bs = bs4 @ [b]" "length bs4 = 4"
    by (cases bs rule: rev_cases) auto
  have 1: "train_epoch T epoch epochs vs bs4 st = Inr (fold (train_step T) bs4 st)"
    using bs(2) assms(2) by (intro train_epoch_quiet) simp
  have "Suc (steps (fold (train_step T) bs4 st)) mod 5 = 0"
    using bs(2) assms(2) by (simp add: fold_train_step mod_Suc)
  then show ?thesis
    by (simp add: bs(1) train_epoch_append 1 train_batch_trigger split: sum.splits)
qed

lemma train_epoch_ends_with_report:
  assumes "vs \<noteq> []" and "bs \<noteq> []" and "(steps st + length bs) mod 5 = 0"
  shows "\<exists>s pre a b c. train_epoch T epoch epochs vs bs st = Inr s
           \<and> running_loss s = num T 0
           \<and> trace s = pre @ [Report (int epoch + 1) epochs a b c]"
proof -
  from assms(2) obtain bs' b where bs: "bs = bs' @ [b]"
    by (cases bs rule: rev_cases) auto
  from train_epoch_nonempty [OF assms(1), of T epoch epochs bs' st 0]
  obtain s1 where 1: "train_epoch T epoch epochs vs bs' st = Inr s1"
    "steps s1 = steps st + length bs'"
    by blast
  have "Suc (steps s1) mod 5 = 0" using 1(2) assms(3) bs by simp
  then have "train_epoch T epoch epochs vs bs st =
               validation T epoch epochs vs (train_step T b s1)"
    by (simp add: bs train_epoch_append 1 train_batch_trigger split: sum.splits)
  then show ?thesis
    by (simp add: validation_nonempty [OF assms(1)])
qed

text \<open>The outer loop, validation source not empty.\<close>

lemma epoch_loop_nonempty:
  assumes "vs \<noteq> []"
  shows "\<exists>st' evs. epoch_loop T epochs trl vs es st = Inr st'
           \<and> steps st' = steps st + length es * length trl
           \<and> trace st' = trace st @ evs
           \<and> count_train evs = length es * length trl
           \<and> validations_after k evs =
               map (\<lambda>i. k + i) (triggers (steps st) (length es * length trl))
           \<and> trailing (steps st mod 5) evs = (steps st + length es * length trl) mod 5"
proof (induction es arbitrary: st k)
  case Nil
  then show ?case by simp
next
  case (Cons e es)
  from train_epoch_nonempty [OF assms, of T e epochs trl st k]
  obtain st1 evs1 where 1: "train_epoch T e epochs vs trl st = Inr st1"
    "steps st1 = steps st + length trl" "trace st1 = trace st @ evs1"
    "count_train evs1 = length trl"
    "validations_after k evs1 = map (\<lambda>i. k + i) (triggers (steps st) (length trl))"
    "trailing (steps st mod 5) evs1 = (steps st + length trl) mod 5"
    by blast
  from Cons.IH [of st1 "k + length trl"]
  obtain st2 evs2 where 2: "epoch_loop T epochs trl vs es st1 = Inr st2"
    "steps st2 = steps st1 + length es * length trl" "trace st2 = trace st1 @ evs2"
    "count_train evs2 = length es * length trl"
    "validations_after (k + length trl) evs2 =
       map (\<lambda>i. k + length trl + i) (triggers (steps st1) (length es * length trl))"
    "trailing (steps st1 mod 5) evs2 = (steps st1 + length es * length trl) mod 5"
    by blast
  show ?case
  proof (intro exI [of _ st2] exI [of _ "evs1 @ evs2"] conjI)
    show "epoch_loop T epochs trl vs (e # es) st = Inr st2" using 1 2 by simp
    show "steps st2 = steps st + length (e # es) * length trl" using 1 2 by simp
    show "trace st2 = trace st @ evs1 @ evs2" using 1 2 by simp
    show "count_train (evs1 @ evs2) = length (e # es) * length trl"
      using 1 2 by (simp add: count_train_append)
    show "validations_after k (evs1 @ evs2) =
            map (\<lambda>i. k + i) (triggers (steps st) (length (e # es) * length trl))"
      using 1 2 by (simp add: validations_after_append triggers_add o_def add.assoc)
    show "trailing (steps st mod 5) (evs1 @ evs2) =
            (steps st + length (e # es) * length trl) mod 5"
      using 1 2 by (simp add: trailing_append add.assoc)
  qed
qed

text \<open>The validation source is empty: the first multiple of 5 ends the run.\<close>

lemma train_epoch_fails:
  assumes "5 \<le> steps st mod 5 + length bs"
  shows "\<exists>s. train_epoch T epoch epochs [] bs st = Inl (ZeroDivisionError, s)
           \<and> steps s = steps st + (5 - steps st mod 5)
           \<and> report_epochs (trace s) = report_epochs (trace st)"
  using assms
proof (induction bs arbitrary: st)
  case Nil
  then show ?case by simp
next
  case (Cons b bs)
  let ?s1 = "train_step T b st"
  show ?case
  proof (cases "Suc (steps st) mod 5 = 0")
    case True
    then have r: "steps st mod 5 = 4" by presburger
    have "train_batch T epoch epochs [] b st =
            Inl (ZeroDivisionError, ?s1\<lparr>s_model := (s_model ?s1)\<lparr>training := False\<rparr>\<rparr>)"
      using True by (simp only: train_batch_trigger validation_empty)
    then have "train_epoch T epoch epochs [] (b # bs) st =
            Inl (ZeroDivisionError, ?s1\<lparr>s_model := (s_model ?s1)\<lparr>training := False\<rparr>\<rparr>)"
      by simp
    moreover have "steps (?s1\<lparr>s_model := (s_model ?s1)\<lparr>training := False\<rparr>\<rparr>)
                     = steps st + (5 - steps st mod 5)"
      by (simp add: r)
    moreover have "report_epochs (trace (?s1\<lparr>s_model := (s_model ?s1)\<lparr>training := False\<rparr>\<rparr>))
                     = report_epochs (trace st)"
      by (simp add: report_epochs_append)
    ultimately show ?thesis by blast
  next
    case False
    then have r: "steps st mod 5 < 4" by presburger
    then have m: "steps ?s1 mod 5 = Suc (steps st mod 5)" by (simp add: mod_Suc)
    have "5 \<le> steps ?s1 mod 5 + length bs" using Cons.prems m by simp
    from Cons.IH [OF this]
    obtain s where s: "train_epoch T epoch epochs [] bs ?s1 = Inl (ZeroDivisionError, s)"
      "steps s = steps ?s1 + (5 - steps ?s1 mod 5)"
      "report_epochs (trace s) = report_epochs (trace ?s1)"
      by blast
    have "train_epoch T epoch epochs [] (b # bs) st = Inl (ZeroDivisionError, s)"
      using False s(1) by (simp add: train_batch_quiet)
    moreover have "steps s = steps st + (5 - steps st mod 5)"
      using s(2) r unfolding m by simp
    moreover have "report_epochs (trace s) = report_epochs (trace st)"
      using s(3) by (simp add: report_epochs_append)
    ultimately show ?thesis by blast
  qed
qed

lemma epoch_loop_fails:
  assumes "5 \<le> steps st mod 5 + length es * length trl"
  shows "\<exists>s. epoch_loop T epochs trl [] es st = Inl (ZeroDivisionError, s)
           \<and> steps s = steps st + (5 - steps st mod 5)
           \<and> report_epochs (trace s) = report_epochs (trace st)"
  using assms
proof (induction es arbitrary: st)
  case Nil
  then show ?case by simp
next
  case (Cons e es)
  show ?case
  proof (cases "5 \<le> steps st mod 5 + length trl")
    case True
    from train_epoch_fails [OF this, of T e epochs]
    obtain s where "train_epoch T e epochs [] trl st = Inl (ZeroDivisionError, s)"
      "steps s = steps st + (5 - steps st mod 5)"
      "report_epochs (trace s) = report_epochs (trace st)"
      by blast
    then show ?thesis by simp
  next
    case False
    let ?s1 = "fold (train_step T) trl st"
    have q: "train_epoch T e epochs [] trl st = Inr ?s1"
      using False by (intro train_epoch_quiet) simp
    have "(steps st + length trl) mod 5 = (steps st mod 5 + length trl) mod 5"
      by (simp add: mod_add_left_eq)
    also have "\<dots> = steps st mod 5 + length trl"
      using False by simp
    finally have "(steps st + length trl) mod 5 = steps st mod 5 + length trl" .
    then have m: "steps ?s1 mod 5 = steps st mod 5 + length trl"
      by (simp only: fold_train_step)
    have "5 \<le> steps ?s1 mod 5 + length es * length trl"
      using Cons.prems unfolding m by simp
    from Cons.IH [OF this]
    obtain s where s: "epoch_loop T epochs trl [] es ?s1 = Inl (ZeroDivisionError, s)"
      "steps s = steps ?s1 + (5 - steps ?s1 mod 5)"
      "report_epochs (trace s) = report_epochs (trace ?s1)"
      by blast
    have "epoch_loop T epochs trl [] (e # es) st = Inl (ZeroDivisionError, s)"
      using q s(1) by simp
    moreover have "steps s = steps st + (5 - steps st mod 5)"
      using s(2) False unfolding m by (simp add: fold_train_step)
    moreover have "report_epochs (trace s) = report_epochs (trace st)"
      using s(3) by (simp add: fold_train_step)
    ultimately show ?thesis by blast
  qed
qed


subsection \<open>The whole run\<close>

lemma load_model_env0:
  "load_model env0 ''densenet121'' 2 False = Inr (model0, Cpu, 1024)"
  by (simp add: load_model_def env0_def model0_def p0_def freeze_def build_classifier_def
        nn_Linear_def to_device_def)

lemma triggers_mod: "triggers s n = triggers (s mod 5) n"
  by (simp add: triggers_def mod_add_left_eq)

lemma triggers_0_12: "triggers 0 12 = [5, 10]"
  by code_simp

lemma triggers_2_12: "triggers 2 12 = [3, 8]"
  by code_simp

lemma triggers_4_12: "triggers 4 12 = [1, 6, 11]"
  by code_simp

lemma start_simps [simp]:
  "steps (start T m opt) = 0"
  "trace (start T m opt) = [Print ''Model is Training...'']"
  "running_loss (start T m opt) = num T 0"
  "s_model (start T m opt) = m"
  "s_optimizer (start T m opt) = opt"
  by (simp_all add: start_def)

lemma train_model_nonempty:
  assumes "vs \<noteq> []"
  shows "\<exists>fin evs. train_model T epochs trl vs m opt = Inr fin
           \<and> steps fin = nat epochs * length trl
           \<and> trace fin = Print ''Model is Training...'' # evs @ [Elapsed]
           \<and> count_train evs = nat epochs * length trl
           \<and> validations_after 0 evs = triggers 0 (nat epochs * length trl)
           \<and> trailing 0 evs = (nat epochs * length trl) mod 5"
proof -
  from epoch_loop_nonempty [OF assms, of T epochs trl "[0..<nat epochs]" "start T m opt" 0]
  obtain st' evs where 1:
    "epoch_loop T epochs trl vs [0..<nat epochs] (start T m opt) = Inr st'"
    "steps st' = nat epochs * length trl"
    "trace st' = Print ''Model is Training...'' # evs"
    "count_train evs = nat epochs * length trl"
    "validations_after 0 evs = triggers 0 (nat epochs * length trl)"
    "trailing 0 evs = (nat epochs * length trl) mod 5"
    by auto
  show ?thesis
    by (intro exI [of _ "st'\<lparr>trace := trace st' @ [Elapsed]\<rparr>"] exI [of _ evs])
       (simp add: train_model_def 1)
qed

subsection \<open>The run as one sequence of steps\<close>

lemma run_steps_append:
  "run_steps T epochs vs (xs @ ys) st =
     (case run_steps T epochs vs xs st of
        Inl e \<Rightarrow> Inl e
      | Inr s \<Rightarrow> run_steps T epochs vs ys s)"
  by (induction xs arbitrary: st) (auto split: sum.splits)

lemma train_epoch_run_steps:
  "train_epoch T epoch epochs vs bs st = run_steps T epochs vs (map (Pair epoch) bs) st"
  by (induction bs arbitrary: st) (auto split: sum.splits)

lemma schedule_simps [simp]:
  "schedule [] trl = []"
  "schedule (e # es) trl = map (Pair e) trl @ schedule es trl"
  "schedule (xs @ ys) trl = schedule xs trl @ schedule ys trl"
  by (simp_all add: schedule_def)

lemma length_schedule: "length (schedule es trl) = length es * length trl"
  by (induction es) simp_all

lemma epoch_loop_run_steps:
  "epoch_loop T epochs trl vs es st = run_steps T epochs vs (schedule es trl) st"
  by (induction es arbitrary: st)
     (auto simp: run_steps_append train_epoch_run_steps split: sum.splits)

lemma train_model_run_steps:
  "train_model T epochs trl vs m opt =
     (case run_steps T epochs vs (schedule [0..<nat epochs] trl) (start T m opt) of
        Inl x \<Rightarrow> Inl x
      | Inr st \<Rightarrow> Inr (st\<lparr>trace := trace st @ [Elapsed]\<rparr>))"
  by (simp add: train_model_def epoch_loop_run_steps)

lemma validation_Inr:
  assumes "validation T epoch epochs vs st = Inr s"
  shows "vs \<noteq> []" and "steps s = steps st" and "running_loss s = num T 0"
proof -
  show 1: "vs \<noteq> []" using assms by (auto simp: validation_empty)
  from assms show "steps s = steps st" "running_loss s = num T 0"
    by (auto simp: validation_nonempty [OF 1])
qed

lemma train_batch_Inr:
  assumes "train_batch T epoch epochs vs b st = Inr s"
  shows "steps s = Suc (steps st)"
    and "Suc (steps st) mod 5 = 0 \<Longrightarrow> running_loss s = num T 0"
proof -
  show "steps s = Suc (steps st)"
  proof (cases "Suc (steps st) mod 5 = 0")
    case True
    with assms have "validation T epoch epochs vs (train_step T b st) = Inr s"
      by (simp add: train_batch_trigger)
    from validation_Inr(2) [OF this] show ?thesis by simp
  next
    case False
    with assms show ?thesis by (auto simp: train_batch_quiet)
  qed
  assume t: "Suc (steps st) mod 5 = 0"
  with assms have "validation T epoch epochs vs (train_step T b st) = Inr s"
    by (simp add: train_batch_trigger)
  from validation_Inr(3) [OF this] show "running_loss s = num T 0" .
qed

lemma run_steps_Inr_steps:
  "run_steps T epochs vs xs st = Inr s \<Longrightarrow> steps s = steps st + length xs"
proof (induction xs arbitrary: st)
  case Nil
  then show ?case by simp
next
  case (Cons x xs)
  obtain e b where x: "x = (e, b)" by (cases x)
  from Cons.prems obtain s1 where 1: "train_batch T e epochs vs b st = Inr s1"
    "run_steps T epochs vs xs s1 = Inr s"
    by (auto simp: x split: sum.splits)
  from Cons.IH [OF 1(2)] train_batch_Inr(1) [OF 1(1)] show ?case by simp
qed

lemma run_steps_snoc:
  assumes "run_steps T epochs vs pre st0 = Inr st"
  shows "run_steps T epochs vs (pre @ [(e, b)]) st0 =
           (if Suc (steps st0 + length pre) mod 5 = 0
            then validation T e epochs vs (train_step T b st)
            else Inr (train_step T b st))"
proof -
  have s: "steps st = steps st0 + length pre" by (rule run_steps_Inr_steps [OF assms])
  have "run_steps T epochs vs (pre @ [(e, b)]) st0 = train_batch T e epochs vs b st"
    by (simp add: run_steps_append assms split: sum.splits)
  then show ?thesis
    by (simp add: train_batch_def Let_def print_every_def s)
qed

lemma run_steps_Inr_zero:
  assumes "run_steps T epochs vs xs st = Inr s"
    and "(steps st + length xs) mod 5 = 0" and "running_loss st = num T 0"
  shows "running_loss s = num T 0"
proof (cases xs rule: rev_cases)
  case Nil
  with assms show ?thesis by simp
next
  case (snoc ys x)
  obtain e b where x: "x = (e, b)" by (cases x)
  from assms(1) obtain s1 where 1: "run_steps T epochs vs ys st = Inr s1"
    "train_batch T e epochs vs b s1 = Inr s"
    by (auto simp: snoc x run_steps_append split: sum.splits)
  have "Suc (steps s1) mod 5 = 0"
    using run_steps_Inr_steps [OF 1(1)] assms(2) by (simp add: snoc)
  from train_batch_Inr(2) [OF 1(2) this] show ?thesis .
qed

lemma run_steps_quiet:
  "steps st mod 5 + length xs < 5 \<Longrightarrow>
     run_steps T epochs vs xs st = Inr (fold (train_step T) (map snd xs) st)"
proof (induction xs arbitrary: st)
  case Nil
  then show ?case by simp
next
  case (Cons x xs)
  obtain e b where x: "x = (e, b)" by (cases x)
  from Cons.prems have q: "Suc (steps st) mod 5 \<noteq> 0" "Suc (steps st) mod 5 = Suc (steps st mod 5)"
    by (auto simp: mod_Suc)
  with Cons show ?case by (simp add: x train_batch_quiet)
qed

lemma run_steps_window:
  assumes "length xs = 5" and "steps st mod 5 = 0"
  shows "run_steps T epochs vs xs st =
           validation T (fst (last xs)) epochs vs (fold (train_step T) (map snd xs) st)"
proof -
  from assms(1) obtain ys x where xs: "xs = ys @ [x]" "length ys = 4"
    by (cases xs rule: rev_cases) auto
  obtain e b where x: "x = (e, b)" by (cases x)
  have 1: "run_steps T epochs vs ys st = Inr (fold (train_step T) (map snd ys) st)"
    using xs(2) assms(2) by (intro run_steps_quiet) simp
  have "Suc (steps (fold (train_step T) (map snd ys) st)) mod 5 = 0"
    using xs(2) assms(2) by (simp add: fold_train_step mod_Suc)
  then show ?thesis
    by (simp add: xs(1) x run_steps_append 1 train_batch_trigger split: sum.splits)
qed

lemma schedule_position:
  assumes "e < n" and "j < length trl"
  shows "\<exists>pre post. schedule [0..<n] trl = pre @ (e, trl ! j) # post
           \<and> length pre = e * length trl + j"
proof -
  have u: "[0..<n] = [0..<e] @ e # [Suc e..<n]"
    using assms(1) by (metis le_add1 less_imp_add_positive upt_add_eq_append upt_conv_Cons plus_nat.add_0)
  have t: "trl = take j trl @ trl ! j # drop (Suc j) trl"
    using assms(2) by (simp add: id_take_nth_drop)
  let ?pre = "schedule [0..<e] trl @ map (Pair e) (take j trl)"
  let ?post = "map (Pair e) (drop (Suc j) trl) @ schedule [Suc e..<n] trl"
  have "map (Pair e) trl = map (Pair e) (take j trl) @ (e, trl ! j) # map (Pair e) (drop (Suc j) trl)"
    by (subst t) (simp del: append_take_drop_id)
  then have "schedule [0..<n] trl = ?pre @ (e, trl ! j) # ?post"
    by (subst u) simp
  moreover have "length ?pre = e * length trl + j"
    using assms(2) by (simp add: length_schedule)
  ultimately show ?thesis by blast
qed

lemma finish_trace:
  "validations_after k (Print s # evs @ [Elapsed]) = validations_after k evs"
  "count_train (Print s # evs @ [Elapsed]) = count_train evs"
  "trailing k (Print s # evs @ [Elapsed]) = trailing k evs"
  by (simp_all add: validations_after_append count_train_append trailing_append)

lemma run_steps_nonempty:
  assumes "vs \<noteq> []"
  shows "\<exists>s. run_steps T epochs vs xs st = Inr s"
proof (induction xs arbitrary: st)
  case Nil
  then show ?case by simp
next
  case (Cons x xs)
  obtain e b where x: "x = (e, b)" by (cases x)
  from train_batch_nonempty [OF assms, of T e epochs b st 0 0]
  obtain s1 where "train_batch T e epochs vs b st = Inr s1" by blast
  with Cons.IH [of s1] show ?case by (simp add: x)
qed

lemma cadence_nonempty:
  assumes "validateloader \<noteq> []" and "e < nat epochs"
  shows "\<exists>st_e st_e' evs fin.
      epoch_loop T epochs trainloader validateloader [0..<e] (start T m opt) = Inr st_e
    \<and> steps st_e = e * length trainloader
    \<and> train_epoch T e epochs validateloader trainloader st_e = Inr st_e'
    \<and> steps st_e' = Suc e * length trainloader
    \<and> trace st_e' = trace st_e @ evs
    \<and> validations_after 0 evs =
        [i \<leftarrow> [1..<Suc (length trainloader)]. (e * length trainloader + i) mod 5 = 0]
    \<and> train_model T epochs trainloader validateloader m opt = Inr fin
    \<and> steps fin = nat epochs * length trainloader
    \<and> count_train (trace fin) = nat epochs * length trainloader
    \<and> validations_after 0 (trace fin) =
        [i \<leftarrow> [1..<Suc (nat epochs * length trainloader)]. i mod 5 = 0]
    \<and> trailing 0 (trace fin) = (nat epochs * length trainloader) mod 5"
proof -
  from epoch_loop_nonempty [OF assms(1), of T epochs trainloader "[0..<e]" "start T m opt" 0]
  obtain st_e where 1:
    "epoch_loop T epochs trainloader validateloader [0..<e] (start T m opt) = Inr st_e"
    "steps st_e = e * length trainloader"
    by auto
  from train_epoch_nonempty [OF assms(1), of T e epochs trainloader st_e 0]
  obtain st_e' evs where 2:
    "train_epoch T e epochs validateloader trainloader st_e = Inr st_e'"
    "steps st_e' = steps st_e + length trainloader"
    "trace st_e' = trace st_e @ evs"
    "validations_after 0 evs = map (\<lambda>i. 0 + i) (triggers (steps st_e) (length trainloader))"
    by blast
  from train_model_nonempty [OF assms(1), of T epochs trainloader m opt]
  obtain fin evs' where 3:
    "train_model T epochs trainloader validateloader m opt = Inr fin"
    "steps fin = nat epochs * length trainloader"
    "trace fin = Print ''Model is Training...'' # evs' @ [Elapsed]"
    "count_train evs' = nat epochs * length trainloader"
    "validations_after 0 evs' = triggers 0 (nat epochs * length trainloader)"
    "trailing 0 evs' = (nat epochs * length trainloader) mod 5"
    by blast
  have 5: "steps st_e' = Suc e * length trainloader"
    using 1(2) 2(2) by simp
  have 6: "validations_after 0 evs =
        [i \<leftarrow> [1..<Suc (length trainloader)]. (e * length trainloader + i) mod 5 = 0]"
    using 1(2) 2(4) by (simp add: triggers_def del: upt_Suc)
  have 7: "count_train (trace fin) = nat epochs * length trainloader"
    using 3(3,4) by (simp only: finish_trace)
  have 8: "validations_after 0 (trace fin) =
        [i \<leftarrow> [1..<Suc (nat epochs * length trainloader)]. i mod 5 = 0]"
    using 3(3,5) by (simp add: validations_after_append triggers_def del: upt_Suc)
  have 9: "trailing 0 (trace fin) = (nat epochs * length trainloader) mod 5"
    using 3(3,6) by (simp only: finish_trace)
  from 1 2(1,3) 3(1,2) 5 6 7 8 9 show ?thesis by blast
qed

lemma run_steps_from_start:
  assumes "run_steps T epochs vs pre (start T m opt) = Inr st"
  shows "steps st = length pre"
    and "run_steps T epochs vs (pre @ [(e, b)]) (start T m opt) =
           (if Suc (length pre) mod 5 = 0
            then validation T e epochs vs (train_step T b st)
            else Inr (train_step T b st))"
    and "length pre mod 5 = 0 \<Longrightarrow> running_loss st = num T 0"
proof -
  show "steps st = length pre"
    using run_steps_Inr_steps [OF assms] by simp
  show "run_steps T epochs vs (pre @ [(e, b)]) (start T m opt) =
           (if Suc (length pre) mod 5 = 0
            then validation T e epochs vs (train_step T b st)
            else Inr (train_step T b st))"
    using run_steps_snoc [OF assms, of e b] by simp
  show "length pre mod 5 = 0 \<Longrightarrow> running_loss st = num T 0"
    using run_steps_Inr_zero [OF assms] by simp
qed

lemma run_steps_trailing:
  assumes "run_steps T epochs vs pre (start T m opt) = Inr st"
    and "length pre mod 5 = 0" and "length w < 5"
  shows "run_steps T epochs vs (pre @ w) (start T m opt) =
           Inr (fold (train_step T) (map snd w) st)"
proof -
  have "steps st mod 5 + length w < 5"
    using assms(2,3) run_steps_from_start(1) [OF assms(1)] by simp
  from run_steps_quiet [OF this] show ?thesis
    by (simp add: run_steps_append assms(1))
qed

lemma run_steps_five:
  assumes "run_steps T epochs vs pre (start T m opt) = Inr st"
    and "length pre mod 5 = 0" and "length w = 5"
  shows "run_steps T epochs vs (pre @ w) (start T m opt) =
           validation T (fst (last w)) epochs vs (fold (train_step T) (map snd w) st)"
proof -
  have "steps st mod 5 = 0"
    using assms(2) run_steps_from_start(1) [OF assms(1)] by simp
  from run_steps_window [OF assms(3) this] show ?thesis
    by (simp add: run_steps_append assms(1))
qed

lemma trailing_steps:
  assumes "length pre mod 5 = 0" and "length w < 5"
    and "run_steps T epochs vs pre (start T m opt) = Inr st"
  shows "running_loss st = num T 0
       \<and> run_steps T epochs vs (pre @ w) (start T m opt) =
           Inr (fold (train_step T) (map snd w) st)
       \<and> running_loss (fold (train_step T) (map snd w) st) =
           foldl (fadd T) (num T 0) (step_losses T (map snd w) st)
       \<and> report_epochs (trace (fold (train_step T) (map snd w) st)) = report_epochs (trace st)"
proof -
  have z: "running_loss st = num T 0"
    by (rule run_steps_from_start(3) [OF assms(3) assms(1)])
  moreover have "run_steps T epochs vs (pre @ w) (start T m opt) =
           Inr (fold (train_step T) (map snd w) st)"
    by (rule run_steps_trailing [OF assms(3) assms(1) assms(2)])
  moreover have "running_loss (fold (train_step T) (map snd w) st) =
           foldl (fadd T) (num T 0) (step_losses T (map snd w) st)"
    by (simp add: fold_train_step z)
  moreover have "report_epochs (trace (fold (train_step T) (map snd w) st))
                   = report_epochs (trace st)"
    by (simp add: fold_train_step)
  ultimately show ?thesis by (intro conjI)
qed

lemma each_step:
  assumes "run_steps T epochs vs pre (start T m opt) = Inr st"
  shows "steps st = length pre
       \<and> run_steps T epochs vs (pre @ [(e, b)]) (start T m opt) =
           (if Suc (length pre) mod 5 = 0
            then validation T e epochs vs (train_step T b st)
            else Inr (train_step T b st))"
  using run_steps_from_start(1,2) [OF assms] by (intro conjI)

lemma last_report:
  assumes "vs \<noteq> []"
  shows "\<exists>evs tl ac. trace (final (validation T epoch epochs vs st)) =
           evs @ [Report (int epoch + 1) epochs (fdiv T (running_loss st) (num T 5)) tl ac]"
proof -
  have "trace (final (validation T epoch epochs vs st)) =
          (trace st @ map (\<lambda>b. Forward False False (fst b)) vs)
          @ [Report (int epoch + 1) epochs (fdiv T (running_loss st) (num T 5))
               (fdiv T (foldl (fadd T) (num T 0)
                          (map (batch_loss T ((s_model st)\<lparr>training := False\<rparr>)) vs))
                  (num T (int (length vs))))
               (fdiv T (foldl (fadd T) (num T 0)
                          (map (batch_accuracy T ((s_model st)\<lparr>training := False\<rparr>)) vs))
                  (num T (int (length vs))))]"
    by (simp add: validation_nonempty [OF assms] final_def)
  then show ?thesis by blast
qed

lemma five_steps:
  assumes "vs \<noteq> []" and "length pre mod 5 = 0" and "length w = 5"
    and "run_steps T epochs vs pre (start T m opt) = Inr st"
  shows "running_loss st = num T 0
       \<and> run_steps T epochs vs (pre @ w) (start T m opt) =
           validation T (fst (last w)) epochs vs (fold (train_step T) (map snd w) st)
       \<and> running_loss (fold (train_step T) (map snd w) st) =
           foldl (fadd T) (num T 0) (step_losses T (map snd w) st)
       \<and> (\<exists>evs tl ac.
             trace (final (run_steps T epochs vs (pre @ w) (start T m opt))) =
               evs @ [Report (int (fst (last w)) + 1) epochs
                        (fdiv T (foldl (fadd T) (num T 0) (step_losses T (map snd w) st))
                           (num T 5)) tl ac])"
proof -
  have z: "running_loss st = num T 0"
    by (rule run_steps_from_start(3) [OF assms(4) assms(2)])
  have r: "run_steps T epochs vs (pre @ w) (start T m opt) =
           validation T (fst (last w)) epochs vs (fold (train_step T) (map snd w) st)"
    by (rule run_steps_five [OF assms(4) assms(2) assms(3)])
  have l: "running_loss (fold (train_step T) (map snd w) st) =
           foldl (fadd T) (num T 0) (step_losses T (map snd w) st)"
    by (simp add: fold_train_step z)
  have "\<exists>evs tl ac.
             trace (final (run_steps T epochs vs (pre @ w) (start T m opt))) =
               evs @ [Report (int (fst (last w)) + 1) epochs
                        (fdiv T (foldl (fadd T) (num T 0) (step_losses T (map snd w) st))
                           (num T 5)) tl ac]"
    using last_report [OF assms(1), of T "fst (last w)" epochs
            "fold (train_step T) (map snd w) st"]
    unfolding r l .
  with z r l show ?thesis by (intro conjI)
qed

subsection \<open>The concrete run of two epochs over seven batches\<close>

lemma sched7:
  "schedule [0..<nat 2] train7 = first5 @ across4 @ (1, 102, 0) # last4"
  by code_simp

lemma run7_losses:
  "step_losses torch0 (map snd across5)
     (final (run_steps torch0 2 valid3 first5 (start torch0 model0 opt0)))
     = [122, 117, 105, 100, 95]"
  by code_simp

lemma run7_trace:
  "trace (final (train_model torch0 2 train7 valid3 model0 opt0)) =
     [Print ''Model is Training...'',
      Forward True True 100, Forward True True 101, Forward True True 102,
      Forward True True 103, Forward True True 104,
      Forward False False 0, Forward False False 3, Forward False False 6,
      Report 1 2 137 (- 14) 0,
      Forward True True 105, Forward True True 106, Forward True True 100,
      Forward True True 101, Forward True True 102,
      Forward False False 0, Forward False False 3, Forward False False 6,
      Report 2 2 107 (- 44) 0,
      Forward True True 103, Forward True True 104, Forward True True 105,
      Forward True True 106, Elapsed]"
  by code_simp

lemma run7_first:
  "step_losses torch0 (map snd first5) (start torch0 model0 opt0) = [147, 142, 137, 132, 127]"
  by code_simp

lemma run7_ten:
  "trace (final (run_steps torch0 2 valid3 (first5 @ across5) (start torch0 model0 opt0))) =
     [Print ''Model is Training...'',
      Forward True True 100, Forward True True 101, Forward True True 102,
      Forward True True 103, Forward True True 104,
      Forward False False 0, Forward False False 3, Forward False False 6,
      Report 1 2 137 (- 14) 0,
      Forward True True 105, Forward True True 106, Forward True True 100,
      Forward True True 101, Forward True True 102,
      Forward False False 0, Forward False False 3, Forward False False 6,
      Report 2 2 107 (- 44) 0]"
  by code_simp

lemma torch0_num [simp]: "num torch0 i = i" "fadd torch0 a b = a + b" "fdiv torch0 a b = a div b"
  by (simp_all add: torch0_def)

lemma torch0_fadd: "fadd torch0 = (+)"
  by (simp add: torch0_def)

lemma valid3_nonempty: "valid3 \<noteq> []"
  by (simp add: valid3_def)

lemma length_train7: "length train7 = 7"
  by (simp add: train7_def)

lemma length_train12: "length train12 = 12"
  by (simp add: train12_def)

section \<open>The claims on the training loop\<close>

text \<open>
  C10. With a validation source of zero batches, a step whose number is a multiple of 5
  ends in the division by \<open>len(validateloader)\<close>: the loop body raises
  ZeroDivisionError and prints no report. A run of at least 5 steps therefore fails at
  step 5, before any report.
\<close>

theorem empty_validation_source_fails:
  "(Suc (steps st) mod 5 = 0 \<longrightarrow>
      (\<exists>s. train_batch T epoch epochs [] b st = Inl (ZeroDivisionError, s)
          \<and> report_epochs (trace s) = report_epochs (trace st)))
   \<and> (5 \<le> nat epochs * length trainloader \<longrightarrow>
      (\<exists>s. train_model T epochs trainloader [] m opt = Inl (ZeroDivisionError, s)
          \<and> steps s = 5 \<and> report_epochs (trace s) = []))"
proof (intro conjI impI)
  assume "Suc (steps st) mod 5 = 0"
  then show "\<exists>s. train_batch T epoch epochs [] b st = Inl (ZeroDivisionError, s)
               \<and> report_epochs (trace s) = report_epochs (trace st)"
    by (simp add: train_batch_trigger validation_empty report_epochs_append)
next
  assume "5 \<le> nat epochs * length trainloader"
  then have "5 \<le> steps (start T m opt) mod 5 + length [0..<nat epochs] * length trainloader"
    by simp
  from epoch_loop_fails [OF this, of T epochs]
  obtain s where "epoch_loop T epochs trainloader [] [0..<nat epochs] (start T m opt)
                    = Inl (ZeroDivisionError, s)"
    "steps s = 5" "report_epochs (trace s) = []"
    by auto
  then show "\<exists>s. train_model T epochs trainloader [] m opt = Inl (ZeroDivisionError, s)
               \<and> steps s = 5 \<and> report_epochs (trace s) = []"
    by (simp add: train_model_def)
qed

theorem empty_validation_source_fails_witness:
  "Suc (steps ((start torch0 model0 opt0)\<lparr>steps := 4\<rparr>)) mod 5 = 0
   \<and> (\<exists>s. train_batch torch0 0 1 [] (0, 0) ((start torch0 model0 opt0)\<lparr>steps := 4\<rparr>)
              = Inl (ZeroDivisionError, s)
          \<and> report_epochs (trace s) = [])
   \<and> 5 \<le> nat 1 * length train12
   \<and> (\<exists>s. train_model torch0 1 train12 [] model0 opt0 = Inl (ZeroDivisionError, s)
          \<and> steps s = 5 \<and> report_epochs (trace s) = [])"
  using empty_validation_source_fails
          [of "(start torch0 model0 opt0)\<lparr>steps := 4\<rparr>" torch0 0 1 "(0, 0)" train12
              model0 opt0]
  by (simp add: train12_def)

text \<open>
  C6, as the code has it. A validation pass over a source that is not empty: every batch
  is forwarded once, in order, with the model in evaluation mode and gradients off;
  test_loss is the sum of the batch losses and accuracy the sum of the batch accuracies,
  each batch accuracy being the mean of the comparison of the top-1 class of
  \<open>exp(logps)\<close> with the labels; the report carries epoch + 1, running_loss divided by
  5, and test_loss and accuracy divided by the number of validation batches; then
  running_loss is 0 and the model is back in training mode. The running_loss of a report
  is the sum of the losses of the last five training steps, which may lie in two epochs:
  the two nested loops make the steps of the schedule in order, and in a run from the
  start, after any number of steps that is a multiple of 5, running_loss is 0 and the
  next five steps of whichever epochs end in this pass, entered with the sum of their
  five losses, which the report prints divided by 5.
\<close>

theorem validation_report:
  assumes "validateloader \<noteq> []"
  shows "validation T epoch epochs validateloader st =
           Inr (st\<lparr>trace := trace st
                      @ map (\<lambda>b. Forward False False (fst b)) validateloader
                      @ [Report (int epoch + 1) epochs
                           (fdiv T (running_loss st) (num T 5))
                           (fdiv T (foldl (fadd T) (num T 0)
                                      (map (batch_loss T ((s_model st)\<lparr>training := False\<rparr>))
                                         validateloader))
                              (num T (int (length validateloader))))
                           (fdiv T (foldl (fadd T) (num T 0)
                                      (map (batch_accuracy T ((s_model st)\<lparr>training := False\<rparr>))
                                         validateloader))
                              (num T (int (length validateloader))))],
                    running_loss := num T 0,
                    s_model := (s_model st)\<lparr>training := True\<rparr>\<rparr>)
         \<and> batch_loss T m b = item T (criterion T (forward T m (fst b)) (snd b))
         \<and> batch_accuracy T m b =
             mean_item T (tequals T (topk1 T (texp T (forward T m (fst b)))) (snd b))
         \<and> (length bs = 5 \<and> steps st mod 5 = 0 \<longrightarrow>
               train_epoch T epoch epochs validateloader bs st =
                 validation T epoch epochs validateloader (fold (train_step T) bs st)
               \<and> (running_loss st = num T 0 \<longrightarrow>
                    running_loss (fold (train_step T) bs st) =
                      foldl (fadd T) (num T 0) (step_losses T bs st)))
         \<and> epoch_loop T epochs trainloader validateloader es st =
             run_steps T epochs validateloader (schedule es trainloader) st
         \<and> (\<forall>pre w st0. length pre mod 5 = 0 \<and> length w = 5
               \<and> run_steps T epochs validateloader pre (start T model opt) = Inr st0 \<longrightarrow>
             running_loss st0 = num T 0
           \<and> run_steps T epochs validateloader (pre @ w) (start T model opt) =
               validation T (fst (last w)) epochs validateloader
                 (fold (train_step T) (map snd w) st0)
           \<and> running_loss (fold (train_step T) (map snd w) st0) =
               foldl (fadd T) (num T 0) (step_losses T (map snd w) st0)
           \<and> (\<exists>evs tl ac.
                 trace (final (run_steps T epochs validateloader (pre @ w) (start T model opt))) =
                   evs @ [Report (int (fst (last w)) + 1) epochs
                            (fdiv T (foldl (fadd T) (num T 0)
                                       (step_losses T (map snd w) st0)) (num T 5)) tl ac]))"
proof (intro conjI)
  show "validation T epoch epochs validateloader st = Inr (st\<lparr>trace := trace st
                      @ map (\<lambda>b. Forward False False (fst b)) validateloader
                      @ [Report (int epoch + 1) epochs
                           (fdiv T (running_loss st) (num T 5))
                           (fdiv T (foldl (fadd T) (num T 0)
                                      (map (batch_loss T ((s_model st)\<lparr>training := False\<rparr>))
                                         validateloader))
                              (num T (int (length validateloader))))
                           (fdiv T (foldl (fadd T) (num T 0)
                                      (map (batch_accuracy T ((s_model st)\<lparr>training := False\<rparr>))
                                         validateloader))
                              (num T (int (length validateloader))))],
                    running_loss := num T 0,
                    s_model := (s_model st)\<lparr>training := True\<rparr>\<rparr>)"
    by (rule validation_nonempty [OF assms])
  show "batch_loss T m b = item T (criterion T (forward T m (fst b)) (snd b))"
    by (simp add: batch_loss_def)
  show "batch_accuracy T m b =
          mean_item T (tequals T (topk1 T (texp T (forward T m (fst b)))) (snd b))"
    by (simp add: batch_accuracy_def)
  show "length bs = 5 \<and> steps st mod 5 = 0 \<longrightarrow>
               train_epoch T epoch epochs validateloader bs st =
                 validation T epoch epochs validateloader (fold (train_step T) bs st)
               \<and> (running_loss st = num T 0 \<longrightarrow>
                    running_loss (fold (train_step T) bs st) =
                      foldl (fadd T) (num T 0) (step_losses T bs st))"
    by (simp add: train_epoch_window fold_train_step)
  show "epoch_loop T epochs trainloader validateloader es st =
             run_steps T epochs validateloader (schedule es trainloader) st"
    by (rule epoch_loop_run_steps)
  show "\<forall>pre w st0. length pre mod 5 = 0 \<and> length w = 5
               \<and> run_steps T epochs validateloader pre (start T model opt) = Inr st0 \<longrightarrow>
             running_loss st0 = num T 0
           \<and> run_steps T epochs validateloader (pre @ w) (start T model opt) =
               validation T (fst (last w)) epochs validateloader
                 (fold (train_step T) (map snd w) st0)
           \<and> running_loss (fold (train_step T) (map snd w) st0) =
               foldl (fadd T) (num T 0) (step_losses T (map snd w) st0)
           \<and> (\<exists>evs tl ac.
                 trace (final (run_steps T epochs validateloader (pre @ w) (start T model opt))) =
                   evs @ [Report (int (fst (last w)) + 1) epochs
                            (fdiv T (foldl (fadd T) (num T 0)
                                       (step_losses T (map snd w) st0)) (num T 5)) tl ac])"
    by (intro allI impI, elim conjE, rule five_steps [OF assms]; assumption)
qed

theorem validation_report_witness:
  "valid3 \<noteq> []
   \<and> trace (final (validation torch0 1 2 valid3
                     ((start torch0 model0 opt0)\<lparr>running_loss := 37\<rparr>))) =
       [Print ''Model is Training...'', Forward False False 0, Forward False False 3,
        Forward False False 6, Report 2 2 7 16 66]
   \<and> running_loss (final (validation torch0 1 2 valid3
                     ((start torch0 model0 opt0)\<lparr>running_loss := 37\<rparr>))) = 0
   \<and> training (s_model (final (validation torch0 1 2 valid3
                     ((start torch0 model0 opt0)\<lparr>running_loss := 37\<rparr>))))
   \<and> length (map snd first5) = 5 \<and> steps (start torch0 model0 opt0) mod 5 = 0
   \<and> running_loss (start torch0 model0 opt0) = 0
   \<and> train_epoch torch0 0 2 valid3 (map snd first5) (start torch0 model0 opt0) =
       validation torch0 0 2 valid3
         (fold (train_step torch0) (map snd first5) (start torch0 model0 opt0))
   \<and> running_loss (fold (train_step torch0) (map snd first5) (start torch0 model0 opt0)) =
       foldl (+) 0 (step_losses torch0 (map snd first5) (start torch0 model0 opt0))
   \<and> step_losses torch0 (map snd first5) (start torch0 model0 opt0) =
       [147, 142, 137, 132, 127]
   \<and> epoch_loop torch0 2 train7 valid3 [0, 1] (start torch0 model0 opt0) =
       run_steps torch0 2 valid3 (schedule [0, 1] train7) (start torch0 model0 opt0)
   \<and> length first5 mod 5 = 0 \<and> length across5 = 5
   \<and> (\<exists>st0. run_steps torch0 2 valid3 first5 (start torch0 model0 opt0) = Inr st0
         \<and> running_loss st0 = 0
         \<and> step_losses torch0 (map snd across5) st0 = [122, 117, 105, 100, 95]
         \<and> run_steps torch0 2 valid3 (first5 @ across5) (start torch0 model0 opt0) =
             validation torch0 1 2 valid3 (fold (train_step torch0) (map snd across5) st0)
         \<and> running_loss (fold (train_step torch0) (map snd across5) st0) = 539)
   \<and> trace (final (run_steps torch0 2 valid3 (first5 @ across5) (start torch0 model0 opt0))) =
       [Print ''Model is Training...'',
        Forward True True 100, Forward True True 101, Forward True True 102,
        Forward True True 103, Forward True True 104,
        Forward False False 0, Forward False False 3, Forward False False 6,
        Report 1 2 137 (- 14) 0,
        Forward True True 105, Forward True True 106, Forward True True 100,
        Forward True True 101, Forward True True 102,
        Forward False False 0, Forward False False 3, Forward False False 6,
        Report 2 2 107 (- 44) 0]"
proof -
  let ?s0 = "start torch0 model0 opt0"
  let ?s37 = "(start torch0 model0 opt0)\<lparr>running_loss := 37\<rparr>"
  note V = validation_report [OF valid3_nonempty, where T = torch0 and epoch = 1
      and epochs = 2 and st = ?s37 and m = model0 and b = "(0, 46)" and model = model0
      and opt = opt0 and bs = "map snd first5" and trainloader = train7 and es = "[0, 1]"]
  note V1 = V [THEN conjunct1]
  note W = validation_report [OF valid3_nonempty, where T = torch0 and epoch = 0
      and epochs = 2 and st = ?s0 and m = model0 and b = "(0, 46)" and model = model0
      and opt = opt0 and bs = "map snd first5" and trainloader = train7 and es = "[0, 1]"]
  note W4 = W [THEN conjunct2, THEN conjunct2, THEN conjunct2, THEN conjunct1]
  note W5 = W [THEN conjunct2, THEN conjunct2, THEN conjunct2, THEN conjunct2, THEN conjunct1]
  have k5: "length (map snd first5) = 5" by (simp add: first5_def)
  have k0: "steps ?s0 mod 5 = 0" "running_loss ?s0 = 0" by simp_all
  from W4 k5 k0
  have w: "train_epoch torch0 0 2 valid3 (map snd first5) ?s0 =
             validation torch0 0 2 valid3 (fold (train_step torch0) (map snd first5) ?s0)"
    "running_loss (fold (train_step torch0) (map snd first5) ?s0) =
       foldl (+) 0 (step_losses torch0 (map snd first5) ?s0)"
    by (simp_all add: torch0_fadd)
  note V6 = V [THEN conjunct2, THEN conjunct2, THEN conjunct2, THEN conjunct2, THEN conjunct2]
  have a: "trace (final (validation torch0 1 2 valid3 ?s37)) =
       [Print ''Model is Training...'', Forward False False 0, Forward False False 3,
        Forward False False 6, Report 2 2 7 16 66]"
    unfolding V1
    by (simp add: valid3_def final_def batch_loss_def batch_accuracy_def
          torch0_def model0_def p0_def parameters_def classifier_parameters_def)
  have b: "running_loss (final (validation torch0 1 2 valid3 ?s37)) = 0"
    unfolding V1 by (simp add: final_def)
  have c: "training (s_model (final (validation torch0 1 2 valid3 ?s37)))"
    unfolding V1 by (simp add: final_def)
  have l5: "length first5 mod 5 = 0" by (simp add: first5_def)
  have l5': "length across5 = 5" by (simp add: across5_def across4_def)
  from run_steps_nonempty [OF valid3_nonempty]
  obtain st0 where r: "run_steps torch0 2 valid3 first5 ?s0 = Inr st0" by blast
  from V6 [THEN spec, of first5, THEN spec, of across5, THEN spec, of st0] l5 l5' r
  have t: "running_loss st0 = 0"
    "run_steps torch0 2 valid3 (first5 @ across5) ?s0 =
       validation torch0 (fst (last across5)) 2 valid3
         (fold (train_step torch0) (map snd across5) st0)"
    "running_loss (fold (train_step torch0) (map snd across5) st0) =
         foldl (fadd torch0) 0 (step_losses torch0 (map snd across5) st0)"
    by simp_all
  have e: "fst (last across5) = 1" by (simp add: across5_def)
  have sl: "step_losses torch0 (map snd across5) st0 = [122, 117, 105, 100, 95]"
    using run7_losses by (simp add: r final_def)
  have rl: "running_loss (fold (train_step torch0) (map snd across5) st0) = 539"
    unfolding t(3) sl by (simp add: fun_eq_iff)
  have "\<exists>st0. run_steps torch0 2 valid3 first5 ?s0 = Inr st0
         \<and> running_loss st0 = 0
         \<and> step_losses torch0 (map snd across5) st0 = [122, 117, 105, 100, 95]
         \<and> run_steps torch0 2 valid3 (first5 @ across5) ?s0 =
             validation torch0 1 2 valid3 (fold (train_step torch0) (map snd across5) st0)
         \<and> running_loss (fold (train_step torch0) (map snd across5) st0) = 539"
    using r t(1) sl t(2) rl unfolding e by blast
  then show ?thesis
    using valid3_nonempty a b c k5 k0 w run7_first W5 l5 l5' run7_ten by (intro conjI)
qed

text \<open>
  The claim C6 as stated ("every validation pass") fails for a validation source of zero
  batches: the pass sets evaluation mode, forwards nothing and raises in the division by
  \<open>len(validateloader)\<close>; no report is printed and the model stays in evaluation mode.
\<close>

theorem validation_report_counterexample:
  "validation torch0 0 1 [] (start torch0 model0 opt0) =
     Inl (ZeroDivisionError, (start torch0 model0 opt0)\<lparr>s_model := model0\<lparr>training := False\<rparr>\<rparr>)
   \<and> report_epochs (trace (final (validation torch0 0 1 [] (start torch0 model0 opt0)))) = []
   \<and> training (s_model (final (validation torch0 0 1 [] (start torch0 model0 opt0)))) = False"
  by (simp add: validation_empty final_def)

text \<open>
  C9. steps and running_loss are set once, before the epoch loop, and nothing resets
  them at an epoch boundary: train_model is the loop body run over the schedule of all
  epochs, step after step, and step \<open>e * len(trainloader) + j + 1\<close> of the schedule is
  batch \<open>j\<close> of epoch \<open>e\<close>. Whatever the validation source: after a part of the run
  that raised no exception, steps is the number of steps made, and the next step enters
  validation exactly when its cumulative number is a multiple of 5. After a multiple of 5
  steps running_loss is 0, and up to four further steps, of whichever epochs, only add
  their losses to running_loss and print no report; so the losses of the steps after the
  last multiple of 5 are never reported. With a validation source that is not empty the
  run completes: epoch \<open>e\<close> starts after \<open>e * len(trainloader)\<close> steps, validation
  follows exactly those of its batches whose cumulative step number is a multiple of 5,
  the reports of the run come after the steps 5, 10, 15, ..., and the steps after the
  last multiple of 5 are followed by none.
\<close>

theorem cadence_is_cumulative:
  "train_model T epochs trainloader validateloader m opt =
     (case run_steps T epochs validateloader (schedule [0..<nat epochs] trainloader)
             (start T m opt) of
        Inl x \<Rightarrow> Inl x
      | Inr st \<Rightarrow> Inr (st\<lparr>trace := trace st @ [Elapsed]\<rparr>))
   \<and> (\<forall>e j. e < nat epochs \<and> j < length trainloader \<longrightarrow>
         (\<exists>pre post. schedule [0..<nat epochs] trainloader = pre @ (e, trainloader ! j) # post
             \<and> length pre = e * length trainloader + j))
   \<and> (\<forall>pre e b st. run_steps T epochs validateloader pre (start T m opt) = Inr st \<longrightarrow>
         steps st = length pre
       \<and> run_steps T epochs validateloader (pre @ [(e, b)]) (start T m opt) =
           (if Suc (length pre) mod 5 = 0
            then validation T e epochs validateloader (train_step T b st)
            else Inr (train_step T b st)))
   \<and> (\<forall>pre w st. length pre mod 5 = 0 \<and> length w < 5
           \<and> run_steps T epochs validateloader pre (start T m opt) = Inr st \<longrightarrow>
         running_loss st = num T 0
       \<and> run_steps T epochs validateloader (pre @ w) (start T m opt) =
           Inr (fold (train_step T) (map snd w) st)
       \<and> running_loss (fold (train_step T) (map snd w) st) =
           foldl (fadd T) (num T 0) (step_losses T (map snd w) st)
       \<and> report_epochs (trace (fold (train_step T) (map snd w) st)) = report_epochs (trace st))
   \<and> (validateloader \<noteq> [] \<and> e < nat epochs \<longrightarrow>
        (\<exists>st_e st_e' evs fin.
            epoch_loop T epochs trainloader validateloader [0..<e] (start T m opt) = Inr st_e
          \<and> steps st_e = e * length trainloader
          \<and> train_epoch T e epochs validateloader trainloader st_e = Inr st_e'
          \<and> steps st_e' = Suc e * length trainloader
          \<and> trace st_e' = trace st_e @ evs
          \<and> validations_after 0 evs =
              [i \<leftarrow> [1..<Suc (length trainloader)]. (e * length trainloader + i) mod 5 = 0]
          \<and> train_model T epochs trainloader validateloader m opt = Inr fin
          \<and> steps fin = nat epochs * length trainloader
          \<and> count_train (trace fin) = nat epochs * length trainloader
          \<and> validations_after 0 (trace fin) =
              [i \<leftarrow> [1..<Suc (nat epochs * length trainloader)]. i mod 5 = 0]
          \<and> trailing 0 (trace fin) = (nat epochs * length trainloader) mod 5))"
proof (intro conjI)
  show "train_model T epochs trainloader validateloader m opt =
     (case run_steps T epochs validateloader (schedule [0..<nat epochs] trainloader)
             (start T m opt) of
        Inl x \<Rightarrow> Inl x
      | Inr st \<Rightarrow> Inr (st\<lparr>trace := trace st @ [Elapsed]\<rparr>))"
    by (rule train_model_run_steps)
  show "\<forall>e j. e < nat epochs \<and> j < length trainloader \<longrightarrow>
         (\<exists>pre post. schedule [0..<nat epochs] trainloader = pre @ (e, trainloader ! j) # post
             \<and> length pre = e * length trainloader + j)"
    by (intro allI impI, elim conjE, rule schedule_position; assumption)
  show "\<forall>pre e b st. run_steps T epochs validateloader pre (start T m opt) = Inr st \<longrightarrow>
         steps st = length pre
       \<and> run_steps T epochs validateloader (pre @ [(e, b)]) (start T m opt) =
           (if Suc (length pre) mod 5 = 0
            then validation T e epochs validateloader (train_step T b st)
            else Inr (train_step T b st))"
    by (intro allI impI, rule each_step; assumption)
  show "\<forall>pre w st. length pre mod 5 = 0 \<and> length w < 5
           \<and> run_steps T epochs validateloader pre (start T m opt) = Inr st \<longrightarrow>
         running_loss st = num T 0
       \<and> run_steps T epochs validateloader (pre @ w) (start T m opt) =
           Inr (fold (train_step T) (map snd w) st)
       \<and> running_loss (fold (train_step T) (map snd w) st) =
           foldl (fadd T) (num T 0) (step_losses T (map snd w) st)
       \<and> report_epochs (trace (fold (train_step T) (map snd w) st)) = report_epochs (trace st)"
    by (intro allI impI, elim conjE, rule trailing_steps; assumption)
  show "validateloader \<noteq> [] \<and> e < nat epochs \<longrightarrow>
        (\<exists>st_e st_e' evs fin.
            epoch_loop T epochs trainloader validateloader [0..<e] (start T m opt) = Inr st_e
          \<and> steps st_e = e * length trainloader
          \<and> train_epoch T e epochs validateloader trainloader st_e = Inr st_e'
          \<and> steps st_e' = Suc e * length trainloader
          \<and> trace st_e' = trace st_e @ evs
          \<and> validations_after 0 evs =
              [i \<leftarrow> [1..<Suc (length trainloader)]. (e * length trainloader + i) mod 5 = 0]
          \<and> train_model T epochs trainloader validateloader m opt = Inr fin
          \<and> steps fin = nat epochs * length trainloader
          \<and> count_train (trace fin) = nat epochs * length trainloader
          \<and> validations_after 0 (trace fin) =
              [i \<leftarrow> [1..<Suc (nat epochs * length trainloader)]. i mod 5 = 0]
          \<and> trailing 0 (trace fin) = (nat epochs * length trainloader) mod 5)"
    by (intro impI, elim conjE, rule cadence_nonempty; assumption)
qed

theorem cadence_is_cumulative_witness:
  "valid3 \<noteq> [] \<and> (1::nat) < nat 2
   \<and> length first5 mod 5 = 0 \<and> length across4 < 5
   \<and> (2::nat) < length train7
   \<and> (\<exists>pre post. schedule [0..<nat 2] train7 = pre @ (1, 102, 0) # post \<and> length pre = 9)
   \<and> schedule [0..<nat 2] train7 = first5 @ across4 @ (1, 102, 0) # last4
   \<and> (\<exists>st. run_steps torch0 2 valid3 first5 (start torch0 model0 opt0) = Inr st
         \<and> steps st = 5 \<and> running_loss st = 0
         \<and> run_steps torch0 2 valid3 (first5 @ across4) (start torch0 model0 opt0) =
             Inr (fold (train_step torch0) (map snd across4) st)
         \<and> step_losses torch0 (map snd across4) st = [122, 117, 105, 100]
         \<and> running_loss (fold (train_step torch0) (map snd across4) st) = 444
         \<and> run_steps torch0 2 valid3 ((first5 @ across4) @ [(1, (102, 0))])
               (start torch0 model0 opt0) =
             validation torch0 1 2 valid3
               (train_step torch0 (102, 0) (fold (train_step torch0) (map snd across4) st)))
   \<and> (\<exists>st_e fin.
         epoch_loop torch0 2 train7 valid3 [0..<1] (start torch0 model0 opt0) = Inr st_e
       \<and> steps st_e = 7
       \<and> train_model torch0 2 train7 valid3 model0 opt0 = Inr fin
       \<and> steps fin = 14
       \<and> validations_after 0 (trace fin) = [5, 10]
       \<and> trailing 0 (trace fin) = 4)
   \<and> trace (final (train_model torch0 2 train7 valid3 model0 opt0)) =
       [Print ''Model is Training...'',
        Forward True True 100, Forward True True 101, Forward True True 102,
        Forward True True 103, Forward True True 104,
        Forward False False 0, Forward False False 3, Forward False False 6,
        Report 1 2 137 (- 14) 0,
        Forward True True 105, Forward True True 106, Forward True True 100,
        Forward True True 101, Forward True True 102,
        Forward False False 0, Forward False False 3, Forward False False 6,
        Report 2 2 107 (- 44) 0,
        Forward True True 103, Forward True True 104, Forward True True 105,
        Forward True True 106, Elapsed]"
proof -
  let ?s0 = "start torch0 model0 opt0"
  note C = cadence_is_cumulative [where T = torch0 and epochs = 2 and trainloader = train7
      and validateloader = valid3 and m = model0 and opt = opt0 and e = 1]
  have e: "(1::nat) < nat 2" by simp
  have l5: "length first5 mod 5 = 0" by (simp add: first5_def)
  have l4: "length across4 < 5" by (simp add: across4_def)
  from run_steps_nonempty [OF valid3_nonempty]
  obtain st where r: "run_steps torch0 2 valid3 first5 ?s0 = Inr st" by blast
  note C2 = C [THEN conjunct2, THEN conjunct1]
  note C3 = C [THEN conjunct2, THEN conjunct2, THEN conjunct1]
  note C4 = C [THEN conjunct2, THEN conjunct2, THEN conjunct2, THEN conjunct1]
  note C5 = C [THEN conjunct2, THEN conjunct2, THEN conjunct2, THEN conjunct2]
  from C3 [THEN spec, of first5, THEN spec, of 1, THEN spec, of "(102, 0)", THEN spec, of st] r
  have "steps st = length first5"
    by simp
  then have s5: "steps st = 5" by (simp add: first5_def)
  from C4 [THEN spec, of first5, THEN spec, of across4, THEN spec, of st] l5 l4 r
  have t: "running_loss st = 0"
    "run_steps torch0 2 valid3 (first5 @ across4) ?s0 =
         Inr (fold (train_step torch0) (map snd across4) st)"
    "running_loss (fold (train_step torch0) (map snd across4) st) =
         foldl (fadd torch0) 0 (step_losses torch0 (map snd across4) st)"
    by simp_all
  have "step_losses torch0 (map snd across5) st = [122, 117, 105, 100, 95]"
    using run7_losses by (simp add: r final_def)
  then have sl: "step_losses torch0 (map snd across4) st = [122, 117, 105, 100]"
    by (simp add: across5_def step_losses_snoc)
  have rl: "running_loss (fold (train_step torch0) (map snd across4) st) = 444"
    unfolding t(3) sl by (simp add: fun_eq_iff)
  from C3 [THEN spec, of "first5 @ across4", THEN spec, of 1, THEN spec, of "(102, 0)",
           THEN spec, of "fold (train_step torch0) (map snd across4) st"] t(2)
  have v: "run_steps torch0 2 valid3 ((first5 @ across4) @ [(1, (102, 0))]) ?s0 =
       validation torch0 1 2 valid3
         (train_step torch0 (102, 0) (fold (train_step torch0) (map snd across4) st))"
    by (simp add: first5_def across4_def)
  have j: "(2::nat) < length train7" by (simp add: length_train7)
  have n: "train7 ! 2 = (102, 0)" by (simp add: train7_def)
  from C2 [THEN spec, of 1, THEN spec, of 2] e j
  have p: "\<exists>pre post. schedule [0..<nat 2] train7 = pre @ (1, 102, 0) # post \<and> length pre = 9"
    unfolding n length_train7 by simp
  have a: "[i \<leftarrow> [1..<Suc (nat 2 * 7)]. i mod 5 = 0] = [5, 10::nat]" by code_simp
  from C5 valid3_nonempty e
  obtain st_e fin where f:
    "epoch_loop torch0 2 train7 valid3 [0..<1] ?s0 = Inr st_e"
    "steps st_e = 1 * length train7"
    "train_model torch0 2 train7 valid3 model0 opt0 = Inr fin"
    "steps fin = nat 2 * length train7"
    "validations_after 0 (trace fin) = [i \<leftarrow> [1..<Suc (nat 2 * length train7)]. i mod 5 = 0]"
    "trailing 0 (trace fin) = (nat 2 * length train7) mod 5"
    by blast
  have g: "steps st_e = 7" "steps fin = 14" "validations_after 0 (trace fin) = [5, 10]"
    "trailing 0 (trace fin) = 4"
    using f(2,4,5,6) unfolding length_train7 a by simp_all
  have "\<exists>st. run_steps torch0 2 valid3 first5 ?s0 = Inr st
         \<and> steps st = 5 \<and> running_loss st = 0
         \<and> run_steps torch0 2 valid3 (first5 @ across4) ?s0 =
             Inr (fold (train_step torch0) (map snd across4) st)
         \<and> step_losses torch0 (map snd across4) st = [122, 117, 105, 100]
         \<and> running_loss (fold (train_step torch0) (map snd across4) st) = 444
         \<and> run_steps torch0 2 valid3 ((first5 @ across4) @ [(1, (102, 0))]) ?s0 =
             validation torch0 1 2 valid3
               (train_step torch0 (102, 0) (fold (train_step torch0) (map snd across4) st))"
    using r s5 t(1,2) sl rl v by blast
  moreover have "\<exists>st_e fin.
         epoch_loop torch0 2 train7 valid3 [0..<1] ?s0 = Inr st_e
       \<and> steps st_e = 7
       \<and> train_model torch0 2 train7 valid3 model0 opt0 = Inr fin
       \<and> steps fin = 14
       \<and> validations_after 0 (trace fin) = [5, 10]
       \<and> trailing 0 (trace fin) = 4"
    using f(1,3) g by blast
  ultimately show ?thesis
    using valid3_nonempty e l5 l4 j p sched7 run7_trace by (intro conjI)
qed

text \<open>
  C5, as the code has it. In an epoch of exactly 12 batches that starts when the number
  of steps made is a multiple of 5 (the first epoch does), validation runs exactly twice,
  after batch 5 and after batch 10; each time every validation batch is forwarded once;
  and right after each of the two reports running_loss is 0.
\<close>

theorem first_epoch_cadence:
  assumes "validateloader \<noteq> []" and "length trainloader = 12" and "steps st mod 5 = 0"
  shows "\<exists>st' evs.
      train_epoch T epoch epochs validateloader trainloader st = Inr st'
    \<and> trace st' = trace st @ evs
    \<and> validations_after 0 evs = [5, 10]
    \<and> passes [] evs = [map fst validateloader, map fst validateloader]
    \<and> (\<forall>k \<in> {5, 10}. \<exists>s pre a b c.
          train_epoch T epoch epochs validateloader (take k trainloader) st = Inr s
          \<and> running_loss s = num T 0
          \<and> trace s = pre @ [Report (int epoch + 1) epochs a b c])"
proof -
  have t: "triggers (steps st) 12 = [5, 10]"
    using assms(3) triggers_mod [of "steps st" 12] by (simp add: triggers_0_12)
  from train_epoch_nonempty [OF assms(1), of T epoch epochs trainloader st 0]
  obtain st' evs where 1:
    "train_epoch T epoch epochs validateloader trainloader st = Inr st'"
    "trace st' = trace st @ evs"
    "validations_after 0 evs = map (\<lambda>i. 0 + i) (triggers (steps st) (length trainloader))"
    "passes [] evs = map (\<lambda>i. map fst validateloader) (triggers (steps st) (length trainloader))"
    by blast
  have 2: "validations_after 0 evs = [5, 10]"
    "passes [] evs = [map fst validateloader, map fst validateloader]"
    using 1(3,4) by (simp_all add: assms(2) t)
  have 3: "\<exists>s pre a b c.
          train_epoch T epoch epochs validateloader (take k trainloader) st = Inr s
          \<and> running_loss s = num T 0
          \<and> trace s = pre @ [Report (int epoch + 1) epochs a b c]"
    if "k \<in> {5, 10}" for k
  proof -
    from that assms(2) have "take k trainloader \<noteq> []" "length (take k trainloader) = k"
      by auto
    moreover from that assms(3) have "(steps st + k) mod 5 = 0"
      by auto
    ultimately show ?thesis
      using train_epoch_ends_with_report [OF assms(1), of "take k trainloader" st T epoch epochs]
      by simp
  qed
  from 1(1,2) 2 3 show ?thesis by blast
qed

theorem first_epoch_cadence_witness:
  "valid1 \<noteq> [] \<and> length train12 = 12 \<and> steps (start torch0 model0 opt0) mod 5 = 0
   \<and> (\<exists>st' evs.
         train_epoch torch0 0 1 valid1 train12 (start torch0 model0 opt0) = Inr st'
       \<and> trace st' = trace (start torch0 model0 opt0) @ evs
       \<and> validations_after 0 evs = [5, 10]
       \<and> passes [] evs = [[0], [0]])"
proof -
  have v: "valid1 \<noteq> []" by (simp add: valid1_def)
  have s: "steps (start torch0 model0 opt0) mod 5 = 0" by simp
  have f: "map fst valid1 = [0]" by (simp add: valid1_def)
  from first_epoch_cadence [OF v length_train12 s, of torch0 0 1, unfolded f]
  show ?thesis using v length_train12 s by blast
qed

lemma three_epochs_reports:
  "report_epochs (trace (final (train_model torch0 3 train12 valid1 model0 opt0)))
     = [1, 1, 2, 2, 3, 3, 3]"
proof -
  have v: "valid1 \<noteq> []" by (simp add: valid1_def)
  let ?s0 = "start torch0 model0 opt0"
  from train_epoch_nonempty [OF v, of torch0 0 3 train12 ?s0 0]
  obtain st1 evs1 where 1: "train_epoch torch0 0 3 valid1 train12 ?s0 = Inr st1"
    "steps st1 = 12" "trace st1 = trace ?s0 @ evs1"
    "report_epochs evs1 = map (\<lambda>i. int 0 + 1) (triggers 0 12)"
    by (auto simp: length_train12)
  from train_epoch_nonempty [OF v, of torch0 "Suc 0" 3 train12 st1 0]
  obtain st2 evs2 where 2: "train_epoch torch0 (Suc 0) 3 valid1 train12 st1 = Inr st2"
    "steps st2 = 24" "trace st2 = trace st1 @ evs2"
    "report_epochs evs2 = map (\<lambda>i. int (Suc 0) + 1) (triggers 12 12)"
    by (auto simp: length_train12 1(2))
  from train_epoch_nonempty [OF v, of torch0 2 3 train12 st2 0]
  obtain st3 evs3 where 3: "train_epoch torch0 2 3 valid1 train12 st2 = Inr st3"
    "trace st3 = trace st2 @ evs3"
    "report_epochs evs3 = map (\<lambda>i. int 2 + 1) (triggers 24 12)"
    by (auto simp: length_train12 2(2))
  have t: "triggers 12 12 = [3, 8]" "triggers 24 12 = [1, 6, 11]"
    using triggers_mod [of 12 12] triggers_mod [of 24 12]
    by (simp_all add: triggers_2_12 triggers_4_12)
  have u: "[0..<3] = [0, 1, 2::nat]" by code_simp
  have "train_model torch0 3 train12 valid1 model0 opt0
          = Inr (st3\<lparr>trace := trace st3 @ [Elapsed]\<rparr>)"
    by (simp add: train_model_def u 1(1) 2(1) 3(1))
  then show ?thesis
    by (simp add: final_def 1 2 3 t triggers_0_12 report_epochs_append)
qed

text \<open>
  The claim C5 as stated ("for every epoch") fails: in a run of three epochs of 12
  batches each, the third epoch begins after 24 steps and validates three times, after
  the steps 25, 30 and 35, which are its batches 1, 6 and 11.
\<close>

theorem later_epoch_cadence_counterexample:
  "valid1 \<noteq> [] \<and> length train12 = 12
   \<and> report_epochs (trace (final (train_model torch0 3 train12 valid1 model0 opt0)))
       = [1, 1, 2, 2, 3, 3, 3]
   \<and> validations_after 0 (trace (final (train_model torch0 3 train12 valid1 model0 opt0)))
       = [5, 10, 15, 20, 25, 30, 35]"
proof -
  have v: "valid1 \<noteq> []" by (simp add: valid1_def)
  have t: "triggers 0 36 = [5, 10, 15, 20, 25, 30, 35]" by code_simp
  from train_model_nonempty [OF v, of torch0 3 train12 model0 opt0]
  obtain fin evs where "train_model torch0 3 train12 valid1 model0 opt0 = Inr fin"
    "trace fin = Print ''Model is Training...'' # evs @ [Elapsed]"
    "validations_after 0 evs = triggers 0 (nat 3 * 12)"
    by (auto simp: length_train12)
  then have "validations_after 0
               (trace (final (train_model torch0 3 train12 valid1 model0 opt0)))
             = [5, 10, 15, 20, 25, 30, 35]"
    by (simp add: final_def validations_after_append t)
  with v length_train12 three_epochs_reports show ?thesis by blast
qed

end
